theory Spec2Isabelle
  imports Main "HOL-Library.Word"
begin

unbundle bit_operations_syntax

section \<open>The link-cable trade engine of \<^verbatim>\<open>pkmn_trader/views/trade.c\<close>\<close>

text \<open>
  The engine is the follower side of a Generation I link-cable trade. Every clock edge
  of the peer calls \<^verbatim>\<open>input_clk_gameboy\<close>; a rising edge shifts one bit in
  (\<^verbatim>\<open>transferBit\<close>), and every eighth bit hands the completed byte to one of three
  handlers, chosen by the status shown on screen: \<^verbatim>\<open>getConnectResponse\<close>,
  \<^verbatim>\<open>getMenuResponse\<close> or \<^verbatim>\<open>getTradeCentreResponse\<close>.

  The embedding passes the state explicitly. A C function that mutates
  \<^verbatim>\<open>struct trade_ctx\<close> takes the context and returns the updated one; the handler's
  returned byte is the first component of the result. Bytes are \<open>8 word\<close>, the
  cycle counter is \<open>32 word\<close>.
\<close>

subsection \<open>Protocol constants\<close>

type_synonym uint8_t = "8 word"
type_synonym uint32_t = "32 word"

abbreviation PKMN_BLANK :: uint8_t where "PKMN_BLANK \<equiv> 0x00"
abbreviation ITEM_1_SELECTED :: uint8_t where "ITEM_1_SELECTED \<equiv> 0xD4"
abbreviation ITEM_2_SELECTED :: uint8_t where "ITEM_2_SELECTED \<equiv> 0xD5"
abbreviation ITEM_3_SELECTED :: uint8_t where "ITEM_3_SELECTED \<equiv> 0xD6"
abbreviation SERIAL_PREAMBLE_BYTE :: uint8_t where "SERIAL_PREAMBLE_BYTE \<equiv> 0xFD"
abbreviation SERIAL_TRADE_PREAMBLE_LENGTH :: int where "SERIAL_TRADE_PREAMBLE_LENGTH \<equiv> 9"
abbreviation SERIAL_RNS_LENGTH :: int where "SERIAL_RNS_LENGTH \<equiv> 10"
abbreviation SERIAL_PATCH_LIST_PART_TERMINATOR :: uint8_t where
  "SERIAL_PATCH_LIST_PART_TERMINATOR \<equiv> 0xFF"
abbreviation SERIAL_NO_DATA_BYTE :: uint8_t where "SERIAL_NO_DATA_BYTE \<equiv> 0xFE"
abbreviation PKMN_MASTER :: uint8_t where "PKMN_MASTER \<equiv> 0x01"
abbreviation PKMN_SLAVE :: uint8_t where "PKMN_SLAVE \<equiv> 0x02"
abbreviation PKMN_CONNECTED :: uint8_t where "PKMN_CONNECTED \<equiv> 0x60"
abbreviation PKMN_TRADE_ACCEPT :: uint8_t where "PKMN_TRADE_ACCEPT \<equiv> 0x62"
abbreviation PKMN_TRADE_REJECT :: uint8_t where "PKMN_TRADE_REJECT \<equiv> 0x61"
abbreviation PKMN_TABLE_LEAVE :: uint8_t where "PKMN_TABLE_LEAVE \<equiv> 0x6F"
abbreviation PKMN_SEL_NUM_MASK :: uint8_t where "PKMN_SEL_NUM_MASK \<equiv> 0x60"
abbreviation PKMN_SEL_NUM_ONE :: uint8_t where "PKMN_SEL_NUM_ONE \<equiv> 0x60"
abbreviation PKMN_TRADE_CENTRE :: uint8_t where "PKMN_TRADE_CENTRE \<equiv> ITEM_1_SELECTED"
abbreviation PKMN_COLOSSEUM :: uint8_t where "PKMN_COLOSSEUM \<equiv> ITEM_2_SELECTED"
abbreviation PKMN_BREAK_LINK :: uint8_t where "PKMN_BREAK_LINK \<equiv> ITEM_3_SELECTED"

text \<open>The largest value of a C \<^verbatim>\<open>int\<close> on the 32-bit target.\<close>

abbreviation INT_MAX :: int where "INT_MAX \<equiv> 2147483647"

subsection \<open>Enumerations and structs\<close>

datatype trade_centre_state_t =
    TRADE_RESET
  | TRADE_INIT
  | TRADE_RANDOM
  | TRADE_DATA
  | TRADE_PATCH_HEADER
  | TRADE_PATCH_DATA
  | TRADE_SELECT
  | TRADE_PENDING
  | TRADE_CONFIRMATION
  | TRADE_DONE

datatype render_gameboy_state_t =
    GAMEBOY_CONN_FALSE
  | GAMEBOY_CONN_TRUE
  | GAMEBOY_READY
  | GAMEBOY_WAITING
  | GAMEBOY_TRADE_PENDING
  | GAMEBOY_TRADING

text \<open>
  \<^verbatim>\<open>struct trade_model\<close>, the view model that the draw callback reads. Its pointer to
  the Pokemon table is constant data and is a parameter of the embedding (see
  \<open>externs\<close> below).
\<close>

record trade_model =
  gameboy_status :: render_gameboy_state_t
  ledon :: bool
  curr_pokemon :: uint8_t

text \<open>
  \<^verbatim>\<open>struct trade_ctx\<close>. The two Trade Blocks are separate allocations (the local block
  is handed to \<^verbatim>\<open>trade_alloc\<close>, the incoming scratch block is allocated there), so each
  is its own byte array: the code reads and writes them both through their fields and
  through \<^verbatim>\<open>uint8_t *\<close> casts, and the byte array is the common ground of the two views.
  The patch list is an opaque value of type \<open>'p\<close>.

  The record also holds what the C keeps outside the struct but across calls: the view
  model behind \<^verbatim>\<open>trade->view\<close>, the function-local statics \<^verbatim>\<open>patch_pt_2\<close>,
  \<^verbatim>\<open>counter\<close> and \<^verbatim>\<open>in_pokemon_num\<close> of \<^verbatim>\<open>getTradeCentreResponse\<close>, the static
  \<^verbatim>\<open>time\<close> of \<^verbatim>\<open>input_clk_gameboy\<close>, the level last written to the output pin, and the
  number of patch-list rebuilds queued with \<^verbatim>\<open>furi_timer_pending_callback\<close>.
\<close>

record 'p trade_ctx =
  trade_centre_state :: trade_centre_state_t
  view_model :: trade_model
  in_data :: uint8_t
  out_data :: uint8_t
  shift :: uint8_t
  trade_block :: "uint8_t list"
  input_block :: "uint8_t list"
  patch_list :: 'p
  patch_pt_2 :: bool
  counter :: int
  in_pokemon_num :: uint8_t
  time :: uint32_t
  GAME_BOY_SO :: bool
  plist_recreate_pending :: nat

text \<open>
  What \<^verbatim>\<open>trade.c\<close> uses and does not define. \<^verbatim>\<open>TradeBlock\<close>, \<^verbatim>\<open>struct pokemon_structure\<close>
  and \<^verbatim>\<open>struct name\<close> are declared in \<^verbatim>\<open>pokemon_app.h\<close>; the code depends on them only
  through \<^verbatim>\<open>sizeof\<close> and the offsets of the four arrays \<^verbatim>\<open>party_members\<close>, \<^verbatim>\<open>party\<close>,
  \<^verbatim>\<open>nickname\<close> and \<^verbatim>\<open>ot_name\<close>, which are parameters here. \<^verbatim>\<open>plist_index_get\<close>
  (patch list codec), \<^verbatim>\<open>pokemon_table_get_num_from_index\<close> (applied to the context's
  constant table) and \<^verbatim>\<open>furi_hal_cortex_instructions_per_microsecond\<close> are functions of
  other files.
\<close>

record 'p externs =
  sizeof_TradeBlock :: nat
  offsetof_party_members :: nat
  offsetof_party :: nat
  sizeof_pokemon_structure :: nat
  offsetof_nickname :: nat
  offsetof_ot_name :: nat
  sizeof_name :: nat
  plist_index_get :: "'p \<Rightarrow> int \<Rightarrow> uint8_t"
  pokemon_table_get_num_from_index :: "uint8_t \<Rightarrow> uint8_t"
  instructions_per_microsecond :: uint32_t

subsection \<open>Memory accesses and C arithmetic that can go wrong\<close>

text \<open>
  An access outside the block it addresses, and an increment of an \<^verbatim>\<open>int\<close> that holds
  \<^verbatim>\<open>INT_MAX\<close>, are undefined behaviour in C. The embedding makes each one a result of
  its own, so that no theorem silently assumes they cannot happen. An index is checked
  against the whole block (the allocation), not against the array inside it that the
  pointer was taken from: a write through \<^verbatim>\<open>input_party_flat\<close> past the end of
  \<^verbatim>\<open>party\<close> lands in the fields that follow.
\<close>

datatype error = OutOfBounds | SignedOverflow

definition load :: "uint8_t list \<Rightarrow> int \<Rightarrow> error + uint8_t" where
  "load m i = (if 0 \<le> i \<and> nat i < length m then Inr (m ! nat i) else Inl OutOfBounds)"

definition store :: "uint8_t list \<Rightarrow> int \<Rightarrow> uint8_t \<Rightarrow> error + uint8_t list" where
  "store m i v = (if 0 \<le> i \<and> nat i < length m then Inr (m[nat i := v]) else Inl OutOfBounds)"

text \<open>
  \<^verbatim>\<open>memcpy(dst + d, src + s, n)\<close> between two different blocks: byte \<open>i\<close> of the result
  is the source's byte \<open>s + (i - d)\<close> inside the window and the destination's own
  byte outside it.
\<close>

definition copy_bytes :: "uint8_t list \<Rightarrow> nat \<Rightarrow> uint8_t list \<Rightarrow> nat \<Rightarrow> nat \<Rightarrow> uint8_t list" where
  "copy_bytes dst d src s n =
     map (\<lambda>i. if d \<le> i \<and> i < d + n then src ! (s + (i - d)) else dst ! i) [0..<length dst]"

definition memcpy :: "uint8_t list \<Rightarrow> nat \<Rightarrow> uint8_t list \<Rightarrow> nat \<Rightarrow> nat \<Rightarrow> error + uint8_t list" where
  "memcpy dst d src s n =
     (if d + n \<le> length dst \<and> s + n \<le> length src
      then Inr (copy_bytes dst d src s n)
      else Inl OutOfBounds)"

text \<open>\<^verbatim>\<open>counter++\<close> on a C \<^verbatim>\<open>int\<close>.\<close>

definition incr :: "int \<Rightarrow> error + int" where
  "incr c = (if c = INT_MAX then Inl SignedOverflow else Inr (c + 1))"

text \<open>Sequencing of steps that can fail: the first failure is the result.\<close>

definition bind_err :: "error + 'a \<Rightarrow> ('a \<Rightarrow> error + 'b) \<Rightarrow> error + 'b" where
  "bind_err m f = (case m of Inl e \<Rightarrow> Inl e | Inr x \<Rightarrow> f x)"

text \<open>\<^verbatim>\<open>model->gameboy_status = g\<close>.\<close>

definition set_status :: "render_gameboy_state_t \<Rightarrow> 'p trade_ctx \<Rightarrow> 'p trade_ctx" where
  "set_status g t = t\<lparr>view_model := (view_model t)\<lparr>gameboy_status := g\<rparr>\<rparr>"

subsection \<open>Role negotiation and menu mirroring\<close>

definition getConnectResponse :: "'p trade_ctx \<Rightarrow> uint8_t \<times> 'p trade_ctx" where
  "getConnectResponse t =
     (if in_data t = PKMN_CONNECTED then (PKMN_CONNECTED, set_status GAMEBOY_CONN_TRUE t)
      else if in_data t = PKMN_MASTER then (PKMN_SLAVE, t)
      else if in_data t = PKMN_BLANK then (PKMN_BLANK, t)
      else (PKMN_BREAK_LINK, set_status GAMEBOY_CONN_FALSE t))"

text \<open>
  \<^verbatim>\<open>response\<close> starts as \<^verbatim>\<open>PKMN_BLANK\<close>; the \<^verbatim>\<open>PKMN_TRADE_CENTRE\<close> case sets the status
  and leaves \<^verbatim>\<open>response\<close> as it is.
\<close>

definition getMenuResponse :: "'p trade_ctx \<Rightarrow> uint8_t \<times> 'p trade_ctx" where
  "getMenuResponse t =
     (if in_data t = PKMN_CONNECTED then (PKMN_CONNECTED, t)
      else if in_data t = PKMN_TRADE_CENTRE then (PKMN_BLANK, set_status GAMEBOY_READY t)
      else if in_data t = PKMN_COLOSSEUM \<or> in_data t = PKMN_BREAK_LINK \<or> in_data t = PKMN_MASTER
        then (PKMN_BREAK_LINK, set_status GAMEBOY_CONN_FALSE t)
      else (in_data t, t))"

subsection \<open>The trade-centre state machine\<close>

text \<open>
  One definition per \<^verbatim>\<open>case\<close> label of the \<^verbatim>\<open>switch\<close> in \<^verbatim>\<open>getTradeCentreResponse\<close>.
  In each, \<open>in_data t\<close> is the local \<^verbatim>\<open>in\<close>, and the returned byte is \<^verbatim>\<open>send\<close>, which
  starts as \<^verbatim>\<open>in\<close>.
\<close>

definition case_TRADE_RESET :: "'p trade_ctx \<Rightarrow> error + (uint8_t \<times> 'p trade_ctx)" where
  "case_TRADE_RESET t =
     Inr (in_data t, t\<lparr>counter := 0, patch_pt_2 := False, trade_centre_state := TRADE_INIT\<rparr>)"

definition case_TRADE_INIT :: "'p trade_ctx \<Rightarrow> error + (uint8_t \<times> 'p trade_ctx)" where
  "case_TRADE_INIT t =
     bind_err
       (if in_data t = SERIAL_PREAMBLE_BYTE then
          bind_err (incr (counter t))
            (\<lambda>c. Inr (in_data t, set_status GAMEBOY_WAITING (t\<lparr>counter := c\<rparr>)))
        else if in_data t AND PKMN_SEL_NUM_MASK = PKMN_SEL_NUM_MASK then Inr (PKMN_TABLE_LEAVE, t)
        else Inr (in_data t, t))
       (\<lambda>(send, t1).
          if counter t1 = SERIAL_RNS_LENGTH
          then Inr (send, t1\<lparr>trade_centre_state := TRADE_RANDOM, counter := 0\<rparr>)
          else Inr (send, t1))"

definition case_TRADE_RANDOM :: "'p trade_ctx \<Rightarrow> error + (uint8_t \<times> 'p trade_ctx)" where
  "case_TRADE_RANDOM t =
     bind_err (incr (counter t))
       (\<lambda>c. if c = SERIAL_RNS_LENGTH + SERIAL_TRADE_PREAMBLE_LENGTH
            then Inr (in_data t, t\<lparr>counter := 0, trade_centre_state := TRADE_DATA\<rparr>)
            else Inr (in_data t, t\<lparr>counter := c\<rparr>))"

text \<open>
  \<^verbatim>\<open>counter == sizeof(TradeBlock)\<close> compares an \<^verbatim>\<open>int\<close> with a \<^verbatim>\<open>size_t\<close>; the counter is
  positive there (it has just indexed the block and been incremented), so the
  conversion to unsigned changes nothing.
\<close>

definition case_TRADE_DATA :: "'p externs \<Rightarrow> 'p trade_ctx \<Rightarrow> error + (uint8_t \<times> 'p trade_ctx)" where
  "case_TRADE_DATA X t =
     bind_err (store (input_block t) (counter t) (in_data t))
       (\<lambda>ib. bind_err (load (trade_block t) (counter t))
         (\<lambda>send. bind_err (incr (counter t))
           (\<lambda>c. if c = int (sizeof_TradeBlock X)
                then Inr (send, t\<lparr>input_block := ib, counter := 0,
                                  trade_centre_state := TRADE_PATCH_HEADER\<rparr>)
                else Inr (send, t\<lparr>input_block := ib, counter := c\<rparr>))))"

text \<open>
  \<^verbatim>\<open>input_party_flat\<close> is the address of \<^verbatim>\<open>input_block->party\<close> as a byte pointer, so
  its index \<open>i\<close> is byte \<open>offsetof_party + i\<close> of the scratch block.
\<close>

definition case_TRADE_PATCH_DATA :: "'p externs \<Rightarrow> 'p trade_ctx \<Rightarrow> error + (uint8_t \<times> 'p trade_ctx)" where
  "case_TRADE_PATCH_DATA X t =
     bind_err (incr (counter t))
       (\<lambda>c. let send = (if c > 7 then plist_index_get X (patch_list t) (c - 8) else in_data t) in
          bind_err
            (if in_data t = PKMN_BLANK then Inr (t\<lparr>counter := c\<rparr>)
             else if in_data t = SERIAL_PATCH_LIST_PART_TERMINATOR
               then Inr (t\<lparr>counter := c, patch_pt_2 := True\<rparr>)
             else if \<not> patch_pt_2 t then
               bind_err (store (input_block t)
                           (int (offsetof_party X) + (uint (in_data t) - 1)) SERIAL_NO_DATA_BYTE)
                 (\<lambda>ib. Inr (t\<lparr>counter := c, input_block := ib\<rparr>))
             else
               bind_err (store (input_block t)
                           (int (offsetof_party X) + (0xFB + uint (in_data t))) SERIAL_NO_DATA_BYTE)
                 (\<lambda>ib. Inr (t\<lparr>counter := c, input_block := ib\<rparr>)))
            (\<lambda>t1. if c = 196 then Inr (send, t1\<lparr>trade_centre_state := TRADE_SELECT\<rparr>)
                  else Inr (send, t1)))"

text \<open>When its counter reaches six the header case falls through into the patch-data case.\<close>

definition case_TRADE_PATCH_HEADER :: "'p externs \<Rightarrow> 'p trade_ctx \<Rightarrow> error + (uint8_t \<times> 'p trade_ctx)" where
  "case_TRADE_PATCH_HEADER X t =
     bind_err (if in_data t = SERIAL_PREAMBLE_BYTE then incr (counter t) else Inr (counter t))
       (\<lambda>c. if c = 6
            then case_TRADE_PATCH_DATA X (t\<lparr>counter := 0, trade_centre_state := TRADE_PATCH_DATA\<rparr>)
            else Inr (in_data t, t\<lparr>counter := c\<rparr>))"

definition case_TRADE_PENDING :: "'p trade_ctx \<Rightarrow> error + (uint8_t \<times> 'p trade_ctx)" where
  "case_TRADE_PENDING t =
     (if in_data t = PKMN_TABLE_LEAVE then
        Inr (PKMN_TABLE_LEAVE, set_status GAMEBOY_READY (t\<lparr>trade_centre_state := TRADE_RESET\<rparr>))
      else if in_data t AND PKMN_SEL_NUM_MASK = PKMN_SEL_NUM_MASK then
        Inr (PKMN_SEL_NUM_ONE, set_status GAMEBOY_TRADE_PENDING (t\<lparr>in_pokemon_num := in_data t\<rparr>))
      else if in_data t = PKMN_BLANK then
        (if in_pokemon_num t \<noteq> 0
         then Inr (0, t\<lparr>trade_centre_state := TRADE_CONFIRMATION,
                        in_pokemon_num := in_pokemon_num t AND 0x0F\<rparr>)
         else Inr (in_data t, t))
      else Inr (in_data t, t))"

text \<open>On a blank byte the selection case falls through into the pending case.\<close>

definition case_TRADE_SELECT :: "'p trade_ctx \<Rightarrow> error + (uint8_t \<times> 'p trade_ctx)" where
  "case_TRADE_SELECT t =
     (if in_data t = PKMN_BLANK
      then case_TRADE_PENDING (t\<lparr>in_pokemon_num := 0, trade_centre_state := TRADE_PENDING\<rparr>)
      else Inr (in_data t, t\<lparr>in_pokemon_num := 0\<rparr>))"

definition case_TRADE_CONFIRMATION :: "'p trade_ctx \<Rightarrow> error + (uint8_t \<times> 'p trade_ctx)" where
  "case_TRADE_CONFIRMATION t =
     (if in_data t = PKMN_TRADE_REJECT then
        Inr (in_data t, set_status GAMEBOY_WAITING (t\<lparr>trade_centre_state := TRADE_SELECT\<rparr>))
      else if in_data t = PKMN_TRADE_ACCEPT then
        Inr (in_data t, t\<lparr>trade_centre_state := TRADE_DONE\<rparr>)
      else Inr (in_data t, t))"

text \<open>
  The completion case copies slot \<^verbatim>\<open>in_pokemon_num\<close> of the scratch block into slot 0 of
  the local block, field by field and in the order of the source: the species byte,
  the creature record, the nickname, the original-trainer name.
\<close>

definition case_TRADE_DONE :: "'p externs \<Rightarrow> 'p trade_ctx \<Rightarrow> error + (uint8_t \<times> 'p trade_ctx)" where
  "case_TRADE_DONE X t =
     (if in_data t = PKMN_BLANK then
        (let k = unat (in_pokemon_num t) in
         bind_err (load (input_block t) (int (offsetof_party_members X + k)))
           (\<lambda>species. bind_err (store (trade_block t) (int (offsetof_party_members X)) species)
             (\<lambda>b1. bind_err (memcpy b1 (offsetof_party X)
                                (input_block t) (offsetof_party X + k * sizeof_pokemon_structure X)
                                (sizeof_pokemon_structure X))
               (\<lambda>b2. bind_err (memcpy b2 (offsetof_nickname X)
                                  (input_block t) (offsetof_nickname X + k * sizeof_name X)
                                  (sizeof_name X))
                 (\<lambda>b3. bind_err (memcpy b3 (offsetof_ot_name X)
                                    (input_block t) (offsetof_ot_name X + k * sizeof_name X)
                                    (sizeof_name X))
                   (\<lambda>b4. bind_err (load b4 (int (offsetof_party_members X)))
                     (\<lambda>species0.
                        Inr (in_data t,
                             t\<lparr>trade_centre_state := TRADE_RESET,
                               view_model := (view_model t)
                                 \<lparr>gameboy_status := GAMEBOY_TRADING,
                                  curr_pokemon := pokemon_table_get_num_from_index X species0\<rparr>,
                               trade_block := b4,
                               plist_recreate_pending := plist_recreate_pending t + 1\<rparr>))))))))
      else Inr (in_data t, t))"

definition getTradeCentreResponse :: "'p externs \<Rightarrow> 'p trade_ctx \<Rightarrow> error + (uint8_t \<times> 'p trade_ctx)" where
  "getTradeCentreResponse X t =
     (case trade_centre_state t of
        TRADE_RESET \<Rightarrow> case_TRADE_RESET t
      | TRADE_INIT \<Rightarrow> case_TRADE_INIT t
      | TRADE_RANDOM \<Rightarrow> case_TRADE_RANDOM t
      | TRADE_DATA \<Rightarrow> case_TRADE_DATA X t
      | TRADE_PATCH_HEADER \<Rightarrow> case_TRADE_PATCH_HEADER X t
      | TRADE_PATCH_DATA \<Rightarrow> case_TRADE_PATCH_DATA X t
      | TRADE_SELECT \<Rightarrow> case_TRADE_SELECT t
      | TRADE_PENDING \<Rightarrow> case_TRADE_PENDING t
      | TRADE_CONFIRMATION \<Rightarrow> case_TRADE_CONFIRMATION t
      | TRADE_DONE \<Rightarrow> case_TRADE_DONE X t)"

subsection \<open>The bit shifter\<close>

text \<open>
  \<^verbatim>\<open>transferBit\<close>: \<open>si\<close> is the level read from the input pin. The status is read
  before the handler runs, and it selects the handler of the completed byte.
\<close>

definition transferBit :: "'p externs \<Rightarrow> 'p trade_ctx \<Rightarrow> bool \<Rightarrow> error + 'p trade_ctx" where
  "transferBit X t si =
     (let status = gameboy_status (view_model t);
          t1 = t\<lparr>in_data := push_bit 1 (in_data t) OR (if si then 1 else 0),
                 shift := shift t + 1\<rparr>
      in if shift t1 > 7 then
           (let t2 = t1\<lparr>shift := 0\<rparr> in
            bind_err
              (case status of
                 GAMEBOY_CONN_FALSE \<Rightarrow> Inr (getConnectResponse t2)
               | GAMEBOY_CONN_TRUE \<Rightarrow> Inr (getMenuResponse t2)
               | _ \<Rightarrow> getTradeCentreResponse X t2)
              (\<lambda>(r, t3). Inr (t3\<lparr>out_data := r, in_data := 0\<rparr>)))
         else Inr t1)"

text \<open>
  \<^verbatim>\<open>input_clk_gameboy\<close>: \<open>clk\<close> is the level of the clock pin (true on a rising edge),
  \<open>cyccnt\<close> the cycle counter read by the idle check and \<open>cyccnt'\<close> its value when it is
  stored after the bit was handled. Unsigned 32-bit arithmetic wraps.
\<close>

definition input_clk_gameboy ::
  "'p externs \<Rightarrow> 'p trade_ctx \<Rightarrow> bool \<Rightarrow> bool \<Rightarrow> uint32_t \<Rightarrow> uint32_t \<Rightarrow> error + 'p trade_ctx" where
  "input_clk_gameboy X t clk si cyccnt cyccnt' =
     (let time_ticks = instructions_per_microsecond X * 500 in
      if clk then
        bind_err
          (transferBit X
             (if cyccnt - time t > time_ticks then t\<lparr>in_data := 0, shift := 0\<rparr> else t) si)
          (\<lambda>t2. Inr (t2\<lparr>time := cyccnt'\<rparr>))
      else
        Inr (t\<lparr>GAME_BOY_SO := (out_data t AND 0x80 \<noteq> 0),
               out_data := push_bit 1 (out_data t)\<rparr>))"

subsection \<open>Feeding bytes to the trade-centre handler\<close>

text \<open>
  \<open>recv\<close> is one call of the handler on a received byte; \<open>recvs\<close> feeds a sequence of
  bytes, collects the handler's responses and stops at the first failure.
\<close>

definition recv :: "'p externs \<Rightarrow> 'p trade_ctx \<Rightarrow> uint8_t \<Rightarrow> error + (uint8_t \<times> 'p trade_ctx)" where
  "recv X t b = getTradeCentreResponse X (t\<lparr>in_data := b\<rparr>)"

fun recvs :: "'p externs \<Rightarrow> 'p trade_ctx \<Rightarrow> uint8_t list \<Rightarrow> error + (uint8_t list \<times> 'p trade_ctx)" where
  "recvs X t [] = Inr ([], t)"
| "recvs X t (b # bs) =
     bind_err (recv X t b)
       (\<lambda>(r, t1). bind_err (recvs X t1 bs) (\<lambda>(rs, t2). Inr (r # rs, t2)))"

subsection \<open>Reading a block by fields\<close>

text \<open>The \<open>n\<close> bytes of a block from offset \<open>off\<close>: one array element, seen as bytes.\<close>

definition slice :: "uint8_t list \<Rightarrow> nat \<Rightarrow> nat \<Rightarrow> uint8_t list" where
  "slice m off n = take n (drop off m)"

definition disjoint_ranges :: "nat \<Rightarrow> nat \<Rightarrow> nat \<Rightarrow> nat \<Rightarrow> bool" where
  "disjoint_ranges a n b m = (a + n \<le> b \<or> b + m \<le> a)"

text \<open>
  What a C compiler guarantees of the layout of \<^verbatim>\<open>TradeBlock\<close>: the four arrays have
  (at least) six elements each, lie inside the block and do not overlap.
\<close>

definition layout_ok :: "'p externs \<Rightarrow> bool" where
  "layout_ok X =
     (let pm = offsetof_party_members X; pa = offsetof_party X; nn = offsetof_nickname X;
          ot = offsetof_ot_name X; ps = 6 * sizeof_pokemon_structure X; ns = 6 * sizeof_name X
      in pm + 6 \<le> sizeof_TradeBlock X \<and> pa + ps \<le> sizeof_TradeBlock X \<and>
         nn + ns \<le> sizeof_TradeBlock X \<and> ot + ns \<le> sizeof_TradeBlock X \<and>
         disjoint_ranges pm 6 pa ps \<and> disjoint_ranges pm 6 nn ns \<and>
         disjoint_ranges pm 6 ot ns \<and> disjoint_ranges pa ps nn ns \<and>
         disjoint_ranges pa ps ot ns \<and> disjoint_ranges nn ns ot ns)"

text \<open>Byte \<open>i\<close> of a block belongs to element 0 of one of the four arrays.\<close>

definition in_slot_0 :: "'p externs \<Rightarrow> nat \<Rightarrow> bool" where
  "in_slot_0 X i =
     (i = offsetof_party_members X \<or>
      (offsetof_party X \<le> i \<and> i < offsetof_party X + sizeof_pokemon_structure X) \<or>
      (offsetof_nickname X \<le> i \<and> i < offsetof_nickname X + sizeof_name X) \<or>
      (offsetof_ot_name X \<le> i \<and> i < offsetof_ot_name X + sizeof_name X))"

text \<open>
  Two contexts agree on the trade session: the phase, the statics of the trade-centre
  handler, both blocks, the patch list and the queue of patch-list rebuilds.
\<close>

definition same_session :: "'p trade_ctx \<Rightarrow> 'p trade_ctx \<Rightarrow> bool" where
  "same_session t t' =
     (trade_centre_state t' = trade_centre_state t \<and> counter t' = counter t \<and>
      patch_pt_2 t' = patch_pt_2 t \<and> in_pokemon_num t' = in_pokemon_num t \<and>
      trade_block t' = trade_block t \<and> input_block t' = input_block t \<and>
      patch_list t' = patch_list t \<and> plist_recreate_pending t' = plist_recreate_pending t)"

text \<open>
  The context \<open>t'\<close> is \<open>t\<close> but for the status: every other field of the context
  and of the view model is the same.
\<close>

definition only_status_changed :: "'p trade_ctx \<Rightarrow> 'p trade_ctx \<Rightarrow> bool" where
  "only_status_changed t t' = (t' = set_status (gameboy_status (view_model t')) t)"

text \<open>The phase and the counter a run ends with, when it does not fail.\<close>

definition phase_and_counter ::
  "error + ('a \<times> 'p trade_ctx) \<Rightarrow> (trade_centre_state_t \<times> int) option" where
  "phase_and_counter res =
     (case res of Inl e \<Rightarrow> None | Inr (r, t) \<Rightarrow> Some (trade_centre_state t, counter t))"

text \<open>The scratch block a run ends with, or the failure it stops at.\<close>

definition scratch_after :: "error + ('a \<times> 'p trade_ctx) \<Rightarrow> error + uint8_t list" where
  "scratch_after res = (case res of Inl e \<Rightarrow> Inl e | Inr (r, t) \<Rightarrow> Inr (input_block t))"

subsection \<open>A concrete instance\<close>

text \<open>
  The block that the comments of \<^verbatim>\<open>trade.c\<close> describe: 415 bytes, a trainer name and
  six nicknames and original-trainer names of 11 bytes each, a party count, seven
  species bytes and six creature records of 44 bytes, so that \<^verbatim>\<open>party\<close> is the 0x108
  bytes that the patch list addresses (\<^verbatim>\<open>Pt 1 is 0x00 - 0xFB\<close>, \<^verbatim>\<open>Pt 2 is 0xFC - 0x107\<close>).
  The patch list stands as a list of bytes read by position, the table lookup as the
  identity, and the core runs at 64 cycles per microsecond. The theorems below hold
  for every instance; this one serves the concrete runs.
\<close>

definition gen1_externs :: "uint8_t list externs" where
  "gen1_externs =
     \<lparr>sizeof_TradeBlock = 415, offsetof_party_members = 12, offsetof_party = 19,
      sizeof_pokemon_structure = 44, offsetof_nickname = 349, offsetof_ot_name = 283,
      sizeof_name = 11,
      plist_index_get = (\<lambda>p n. if 0 \<le> n \<and> nat n < length p then p ! nat n else 0),
      pokemon_table_get_num_from_index = (\<lambda>i. i),
      instructions_per_microsecond = 64\<rparr>"

text \<open>
  The context as \<^verbatim>\<open>trade_enter_callback\<close> leaves it once the peer has chosen the trade
  centre: phase \<^verbatim>\<open>TRADE_RESET\<close>, status ready, the LED flag off, the displayed creature
  the table number of the local block's first species byte (0x50 here, under the
  identity lookup), the shift register cleared.
\<close>

definition entered_ctx :: "uint8_t list trade_ctx" where
  "entered_ctx =
     \<lparr>trade_centre_state = TRADE_RESET,
      view_model = \<lparr>gameboy_status = GAMEBOY_READY, ledon = False, curr_pokemon = 0x50\<rparr>,
      in_data = 0, out_data = 0, shift = 0,
      trade_block = replicate 415 0x50, input_block = replicate 415 0,
      patch_list = [], patch_pt_2 = False, counter = 0, in_pokemon_num = 0, time = 0,
      GAME_BOY_SO = False, plist_recreate_pending = 0\<rparr>"

text \<open>
  A context in the patch-data phase, ten bytes into it, that has just received the
  marker \<open>m\<close>; \<open>pt2\<close> tells whether the terminator has been seen.
\<close>

definition patch_ctx :: "bool \<Rightarrow> uint8_t \<Rightarrow> uint8_t list trade_ctx" where
  "patch_ctx pt2 m =
     entered_ctx\<lparr>trade_centre_state := TRADE_PATCH_DATA, counter := 10, patch_pt_2 := pt2,
                 in_data := m\<rparr>"

text \<open>
  The bytes of a session up to the peer's choice of a creature: one byte taken by the
  reset phase, ten preamble markers, nineteen seed and preamble bytes, a Trade Block of
  zeros, six preamble markers, the rest of the patch section as blanks, then blank,
  the selection of slot 0 and blank.
\<close>

definition session_bytes :: "uint8_t list" where
  "session_bytes =
     [0x00] @ (replicate 9 SERIAL_PREAMBLE_BYTE @ [SERIAL_PREAMBLE_BYTE]) @ replicate 19 0x00 @
     replicate 415 0x00 @ (replicate 6 SERIAL_PREAMBLE_BYTE @ replicate 195 PKMN_BLANK) @
     [PKMN_BLANK, 0x60, PKMN_BLANK]"

text \<open>
  A context in the pending phase whose scratch block holds a different byte at every
  position below 256 (byte \<open>i\<close> is \<open>i mod 256\<close>), so that the slots can be told apart.
\<close>

definition pending_ctx :: "uint8_t list trade_ctx" where
  "pending_ctx =
     entered_ctx\<lparr>trade_centre_state := TRADE_PENDING, counter := 196,
                 input_block := map word_of_nat [0..<415]\<rparr>"

text \<open>
  The bytes of a session up to the sixth preamble marker of the patch header, the byte
  that enters the patch-data phase.
\<close>

definition patch_entry_bytes :: "uint8_t list" where
  "patch_entry_bytes =
     [0x00] @ (replicate 9 SERIAL_PREAMBLE_BYTE @ [SERIAL_PREAMBLE_BYTE]) @ replicate 19 0x00 @
     replicate 415 0x00 @ (replicate 5 SERIAL_PREAMBLE_BYTE @ [SERIAL_PREAMBLE_BYTE])"

section \<open>Shared lemmas\<close>

lemmas case_defs =
  case_TRADE_RESET_def case_TRADE_INIT_def case_TRADE_RANDOM_def case_TRADE_DATA_def
  case_TRADE_PATCH_HEADER_def case_TRADE_PATCH_DATA_def case_TRADE_SELECT_def
  case_TRADE_PENDING_def case_TRADE_CONFIRMATION_def case_TRADE_DONE_def

subsection \<open>Lists, words and failing steps\<close>

lemma count_list_app: "count_list (xs @ ys) y = count_list xs y + count_list ys y"
  by (induction xs) auto

lemma count_list_take_le: "count_list (take n xs) y \<le> count_list xs y"
proof -
  have "count_list (take n xs @ drop n xs) y = count_list (take n xs) y + count_list (drop n xs) y"
    by (rule count_list_app)
  then show ?thesis by simp
qed

lemma count_list_replicate_same: "count_list (replicate n x) x = n"
  by (induction n) auto

lemma bind_err_eq_Inr: "bind_err m f = Inr y \<longleftrightarrow> (\<exists>x. m = Inr x \<and> f x = Inr y)"
  by (cases m) (simp_all add: bind_err_def)

lemma uint8_pos: "(m::uint8_t) \<noteq> 0 \<Longrightarrow> 1 \<le> uint m"
  using uint_ge_0 [of m] uint_0_iff [of m] by arith

subsection \<open>Runs of the trade-centre handler\<close>

lemma recvs_append:
  "recvs X t (xs @ ys) =
     bind_err (recvs X t xs) (\<lambda>(rs, t1). bind_err (recvs X t1 ys) (\<lambda>(rs', t2). Inr (rs @ rs', t2)))"
  by (induction xs arbitrary: t) (auto simp: bind_err_def split: sum.splits prod.splits)

lemma recvs_appendI:
  "recvs X t xs = Inr (rs, t1) \<Longrightarrow> recvs X t1 ys = Inr (rs', t2) \<Longrightarrow>
   recvs X t (xs @ ys) = Inr (rs @ rs', t2)"
  by (simp add: recvs_append bind_err_def)

lemma recvs_snocI:
  "recvs X t xs = Inr (rs, t1) \<Longrightarrow> recv X t1 b = Inr (r, t2) \<Longrightarrow>
   recvs X t (xs @ [b]) = Inr (rs @ [r], t2)"
  by (simp add: recvs_append bind_err_def)

lemma recvs_ConsI:
  "recv X t b = Inr (r, t1) \<Longrightarrow> recvs X t1 bs = Inr (rs, t2) \<Longrightarrow>
   recvs X t (b # bs) = Inr (r # rs, t2)"
  by (simp add: bind_err_def)

subsection \<open>The handshake: init and random seed\<close>

lemma recv_INIT:
  assumes "trade_centre_state t = TRADE_INIT" and "counter t = int c" and "c < 10"
  shows "\<exists>r t'. recv X t b = Inr (r, t') \<and> patch_pt_2 t' = patch_pt_2 t \<and>
           trade_block t' = trade_block t \<and> input_block t' = input_block t \<and>
           (if b = 0xFD \<and> c = 9
            then trade_centre_state t' = TRADE_RANDOM \<and> counter t' = 0
            else trade_centre_state t' = TRADE_INIT \<and>
                 counter t' = int (c + (if b = 0xFD then 1 else 0)))"
  using assms
  by (auto simp: recv_def getTradeCentreResponse_def case_TRADE_INIT_def bind_err_def incr_def
        set_status_def)

lemma init_run:
  assumes "trade_centre_state t = TRADE_INIT" and "counter t = int c"
    and "c + count_list xs 0xFD < 10"
  shows "\<exists>rs t'. recvs X t xs = Inr (rs, t') \<and> trade_centre_state t' = TRADE_INIT \<and>
           counter t' = int (c + count_list xs 0xFD) \<and> patch_pt_2 t' = patch_pt_2 t \<and>
           trade_block t' = trade_block t \<and> input_block t' = input_block t"
  using assms
proof (induction xs arbitrary: t c)
  case Nil
  then show ?case by simp
next
  case (Cons b bs)
  let ?c1 = "c + (if b = 0xFD then 1 else 0)"
  from Cons.prems have c: "c < 10" and nl: "\<not> (b = 0xFD \<and> c = 9)"
    by (auto split: if_splits)
  from recv_INIT [OF Cons.prems(1,2) c, of X b] nl
  obtain r t1 where s: "recv X t b = Inr (r, t1)" and p: "patch_pt_2 t1 = patch_pt_2 t"
    and tb: "trade_block t1 = trade_block t" and ib: "input_block t1 = input_block t"
    and st: "trade_centre_state t1 = TRADE_INIT" and ct: "counter t1 = int ?c1"
    by auto
  from Cons.prems(3) have "?c1 + count_list bs 0xFD < 10" by (auto split: if_splits)
  from Cons.IH [OF st ct this]
  obtain rs t2 where r: "recvs X t1 bs = Inr (rs, t2)" and
    q: "trade_centre_state t2 = TRADE_INIT" "counter t2 = int (?c1 + count_list bs 0xFD)"
       "patch_pt_2 t2 = patch_pt_2 t1" "trade_block t2 = trade_block t1"
       "input_block t2 = input_block t1"
    by blast
  from recvs_ConsI [OF s r] q p tb ib show ?case by (auto split: if_splits)
qed

lemma recv_RANDOM:
  assumes "trade_centre_state t = TRADE_RANDOM" and "counter t = int c" and "c < 19"
  shows "\<exists>t'. recv X t b = Inr (b, t') \<and> patch_pt_2 t' = patch_pt_2 t \<and>
           trade_block t' = trade_block t \<and> input_block t' = input_block t \<and>
           view_model t' = view_model t \<and>
           (if c = 18
            then trade_centre_state t' = TRADE_DATA \<and> counter t' = 0
            else trade_centre_state t' = TRADE_RANDOM \<and> counter t' = int (c + 1))"
  using assms
  by (auto simp: recv_def getTradeCentreResponse_def case_TRADE_RANDOM_def bind_err_def incr_def)

lemma random_run:
  assumes "trade_centre_state t = TRADE_RANDOM" and "counter t = int c"
    and "c + length ys < 19"
  shows "\<exists>t'. recvs X t ys = Inr (ys, t') \<and> trade_centre_state t' = TRADE_RANDOM \<and>
           counter t' = int (c + length ys) \<and> patch_pt_2 t' = patch_pt_2 t \<and>
           trade_block t' = trade_block t \<and> input_block t' = input_block t"
  using assms
proof (induction ys arbitrary: t c)
  case Nil
  then show ?case by simp
next
  case (Cons b bs)
  from Cons.prems have c: "c < 19" "c \<noteq> 18" by auto
  from recv_RANDOM [OF Cons.prems(1,2) c(1), of X b] c(2)
  obtain t1 where s: "recv X t b = Inr (b, t1)" and p: "patch_pt_2 t1 = patch_pt_2 t"
    and tb: "trade_block t1 = trade_block t" and ib: "input_block t1 = input_block t"
    and st: "trade_centre_state t1 = TRADE_RANDOM" and ct: "counter t1 = int (c + 1)"
    by auto
  from Cons.prems(3) have "c + 1 + length bs < 19" by simp
  from Cons.IH [OF st ct this]
  obtain t2 where r: "recvs X t1 bs = Inr (bs, t2)" and
    q: "trade_centre_state t2 = TRADE_RANDOM" "counter t2 = int (c + 1 + length bs)"
       "patch_pt_2 t2 = patch_pt_2 t1" "trade_block t2 = trade_block t1"
       "input_block t2 = input_block t1"
    by blast
  from recvs_ConsI [OF s r] q p tb ib show ?case by simp
qed

subsection \<open>Bulk exchange\<close>

lemma recv_DATA:
  assumes "trade_centre_state t = TRADE_DATA" and "counter t = int c"
    and "c < length (input_block t)" and "c < length (trade_block t)" and "int c < INT_MAX"
  shows "\<exists>t'. recv X t b = Inr (trade_block t ! c, t') \<and> patch_pt_2 t' = patch_pt_2 t \<and>
           trade_block t' = trade_block t \<and> input_block t' = (input_block t)[c := b] \<and>
           (if c + 1 = sizeof_TradeBlock X
            then trade_centre_state t' = TRADE_PATCH_HEADER \<and> counter t' = 0
            else trade_centre_state t' = TRADE_DATA \<and> counter t' = int (c + 1))"
  using assms
  by (auto simp: recv_def getTradeCentreResponse_def case_TRADE_DATA_def bind_err_def incr_def
        load_def store_def)

lemma data_run:
  assumes "trade_centre_state t = TRADE_DATA" and "counter t = int c"
    and "length (input_block t) = sizeof_TradeBlock X"
    and "length (trade_block t) = sizeof_TradeBlock X"
    and "int (sizeof_TradeBlock X) \<le> INT_MAX"
    and "c + length bs < sizeof_TradeBlock X"
  shows "\<exists>t'. recvs X t bs = Inr (take (length bs) (drop c (trade_block t)), t') \<and>
           trade_centre_state t' = TRADE_DATA \<and> counter t' = int (c + length bs) \<and>
           patch_pt_2 t' = patch_pt_2 t \<and> trade_block t' = trade_block t \<and>
           input_block t' = take c (input_block t) @ bs @ drop (c + length bs) (input_block t)"
  using assms
proof (induction bs arbitrary: t c)
  case Nil
  then show ?case by simp
next
  case (Cons b bs)
  from Cons.prems have c: "c < length (input_block t)" "c < length (trade_block t)"
    "int c < INT_MAX" "c + 1 \<noteq> sizeof_TradeBlock X"
    by auto
  from recv_DATA [OF Cons.prems(1,2) c(1,2,3), of X b] c(4)
  obtain t1 where s: "recv X t b = Inr (trade_block t ! c, t1)"
    and p: "patch_pt_2 t1 = patch_pt_2 t"
    and tb: "trade_block t1 = trade_block t" and ib: "input_block t1 = (input_block t)[c := b]"
    and st: "trade_centre_state t1 = TRADE_DATA" and ct: "counter t1 = int (c + 1)"
    by auto
  have l1: "length (input_block t1) = sizeof_TradeBlock X"
    and l2: "length (trade_block t1) = sizeof_TradeBlock X"
    using ib tb Cons.prems(3,4) by simp_all
  from Cons.prems(6) have "c + 1 + length bs < sizeof_TradeBlock X" by simp
  from Cons.IH [OF st ct l1 l2 Cons.prems(5) this]
  obtain t2 where r: "recvs X t1 bs = Inr (take (length bs) (drop (c + 1) (trade_block t1)), t2)"
    and q: "trade_centre_state t2 = TRADE_DATA" "counter t2 = int (c + 1 + length bs)"
       "patch_pt_2 t2 = patch_pt_2 t1" "trade_block t2 = trade_block t1"
       "input_block t2 = take (c + 1) (input_block t1) @ bs @ drop (c + 1 + length bs) (input_block t1)"
    by blast
  have outs: "trade_block t ! c # take (length bs) (drop (c + 1) (trade_block t)) =
      take (length (b # bs)) (drop c (trade_block t))"
    using c(2) by (simp add: Cons_nth_drop_Suc [symmetric])
  have ins: "take (c + 1) ((input_block t)[c := b]) @ bs @
        drop (c + 1 + length bs) ((input_block t)[c := b]) =
      take c (input_block t) @ (b # bs) @ drop (c + length (b # bs)) (input_block t)"
    using c(1) by (simp add: take_Suc_conv_app_nth)
  from recvs_ConsI [OF s r] q p tb ib outs ins show ?case by simp
qed

subsection \<open>Patch header and patch data\<close>

lemma recv_PATCH_HEADER:
  assumes "trade_centre_state t = TRADE_PATCH_HEADER" and "counter t = int c" and "c < 6"
    and "\<not> patch_pt_2 t" and "offsetof_party X + 252 < length (input_block t)"
  shows "\<exists>t'. recv X t b = Inr (b, t') \<and> \<not> patch_pt_2 t' \<and>
           trade_block t' = trade_block t \<and>
           (if b = 0xFD \<and> c = 5
            then trade_centre_state t' = TRADE_PATCH_DATA \<and> counter t' = 1 \<and>
                 input_block t' = (input_block t)[offsetof_party X + 252 := 0xFE]
            else trade_centre_state t' = TRADE_PATCH_HEADER \<and>
                 counter t' = int (c + (if b = 0xFD then 1 else 0)) \<and>
                 input_block t' = input_block t)"
  using assms
  by (auto simp: recv_def getTradeCentreResponse_def case_TRADE_PATCH_HEADER_def
        case_TRADE_PATCH_DATA_def bind_err_def incr_def store_def Let_def nat_add_distrib)

lemma patch_header_run:
  assumes "trade_centre_state t = TRADE_PATCH_HEADER" and "counter t = int c"
    and "c + count_list xs 0xFD < 6"
    and "\<not> patch_pt_2 t" and "offsetof_party X + 252 < length (input_block t)"
  shows "\<exists>t'. recvs X t xs = Inr (xs, t') \<and> trade_centre_state t' = TRADE_PATCH_HEADER \<and>
           counter t' = int (c + count_list xs 0xFD) \<and> \<not> patch_pt_2 t' \<and>
           trade_block t' = trade_block t \<and> input_block t' = input_block t"
  using assms
proof (induction xs arbitrary: t c)
  case Nil
  then show ?case by simp
next
  case (Cons b bs)
  let ?c1 = "c + (if b = 0xFD then 1 else 0)"
  from Cons.prems have c: "c < 6" and nl: "\<not> (b = 0xFD \<and> c = 5)"
    by (auto split: if_splits)
  from recv_PATCH_HEADER [OF Cons.prems(1,2) c Cons.prems(4,5), of b] nl
  obtain t1 where s: "recv X t b = Inr (b, t1)" and p: "\<not> patch_pt_2 t1"
    and tb: "trade_block t1 = trade_block t" and ib: "input_block t1 = input_block t"
    and st: "trade_centre_state t1 = TRADE_PATCH_HEADER" and ct: "counter t1 = int ?c1"
    by auto
  from Cons.prems(3) have n: "?c1 + count_list bs 0xFD < 6" by (auto split: if_splits)
  from Cons.prems(5) ib have l: "offsetof_party X + 252 < length (input_block t1)" by simp
  from Cons.IH [OF st ct n p l]
  obtain t2 where r: "recvs X t1 bs = Inr (bs, t2)" and
    q: "trade_centre_state t2 = TRADE_PATCH_HEADER" "counter t2 = int (?c1 + count_list bs 0xFD)"
       "\<not> patch_pt_2 t2" "trade_block t2 = trade_block t1" "input_block t2 = input_block t1"
    by blast
  from recvs_ConsI [OF s r] q tb ib show ?case by (auto split: if_splits)
qed

lemma recv_PATCH_DATA_blank:
  assumes "trade_centre_state t = TRADE_PATCH_DATA" and "counter t = int c" and "c < 196"
  shows "\<exists>r t'. recv X t PKMN_BLANK = Inr (r, t') \<and> patch_pt_2 t' = patch_pt_2 t \<and>
           trade_block t' = trade_block t \<and> input_block t' = input_block t \<and>
           counter t' = int (c + 1) \<and>
           trade_centre_state t' = (if c = 195 then TRADE_SELECT else TRADE_PATCH_DATA)"
  using assms
  by (auto simp: recv_def getTradeCentreResponse_def case_TRADE_PATCH_DATA_def bind_err_def
        incr_def Let_def)

lemma patch_data_blank_run:
  assumes "trade_centre_state t = TRADE_PATCH_DATA" and "counter t = int c" and "c + n < 196"
  shows "\<exists>rs t'. recvs X t (replicate n PKMN_BLANK) = Inr (rs, t') \<and>
           trade_centre_state t' = TRADE_PATCH_DATA \<and> counter t' = int (c + n) \<and>
           patch_pt_2 t' = patch_pt_2 t \<and> trade_block t' = trade_block t \<and>
           input_block t' = input_block t"
  using assms
proof (induction n arbitrary: t c)
  case 0
  then show ?case by simp
next
  case (Suc n)
  from Suc.prems have c: "c < 196" "c \<noteq> 195" by auto
  from recv_PATCH_DATA_blank [OF Suc.prems(1,2) c(1), of X] c(2)
  obtain r t1 where s: "recv X t PKMN_BLANK = Inr (r, t1)" and p: "patch_pt_2 t1 = patch_pt_2 t"
    and tb: "trade_block t1 = trade_block t" and ib: "input_block t1 = input_block t"
    and st: "trade_centre_state t1 = TRADE_PATCH_DATA" and ct: "counter t1 = int (c + 1)"
    by auto
  from Suc.prems(3) have "c + 1 + n < 196" by simp
  from Suc.IH [OF st ct this]
  obtain rs t2 where r: "recvs X t1 (replicate n PKMN_BLANK) = Inr (rs, t2)" and
    q: "trade_centre_state t2 = TRADE_PATCH_DATA" "counter t2 = int (c + 1 + n)"
       "patch_pt_2 t2 = patch_pt_2 t1" "trade_block t2 = trade_block t1"
       "input_block t2 = input_block t1"
    by blast
  from recvs_ConsI [OF s r] q p tb ib show ?case by simp
qed

subsection \<open>Selection\<close>

lemma select_to_confirmation:
  assumes "trade_centre_state t = TRADE_SELECT" and "b AND PKMN_SEL_NUM_MASK = PKMN_SEL_NUM_MASK"
    and "b \<noteq> PKMN_TABLE_LEAVE"
  shows "\<exists>t'. recvs X t [PKMN_BLANK, b, PKMN_BLANK] = Inr ([PKMN_BLANK, PKMN_SEL_NUM_ONE, PKMN_BLANK], t') \<and>
           trade_centre_state t' = TRADE_CONFIRMATION \<and> counter t' = counter t \<and>
           in_pokemon_num t' = b AND 0x0F \<and> patch_pt_2 t' = patch_pt_2 t \<and>
           trade_block t' = trade_block t \<and> input_block t' = input_block t"
proof -
  from assms(2) have "b \<noteq> 0" by auto
  with assms show ?thesis
    by (auto simp: recv_def getTradeCentreResponse_def case_TRADE_SELECT_def
          case_TRADE_PENDING_def bind_err_def set_status_def)
qed

subsection \<open>Whole phases, and a session up to the confirmation\<close>

lemma init_phase_complete:
  assumes "trade_centre_state t = TRADE_INIT" and "counter t = 0"
    and "count_list xs SERIAL_PREAMBLE_BYTE = 9"
  shows "\<exists>rs t'. recvs X t (xs @ [SERIAL_PREAMBLE_BYTE]) = Inr (rs, t') \<and>
           trade_centre_state t' = TRADE_RANDOM \<and> counter t' = 0 \<and>
           patch_pt_2 t' = patch_pt_2 t \<and> trade_block t' = trade_block t \<and>
           input_block t' = input_block t"
proof -
  have "0 + count_list xs SERIAL_PREAMBLE_BYTE < 10" using assms(3) by simp
  from init_run [OF assms(1) _ this, of X] assms(2,3)
  obtain rs1 t1 where r1: "recvs X t xs = Inr (rs1, t1)"
    and s1: "trade_centre_state t1 = TRADE_INIT" and c1: "counter t1 = int 9"
    and f1: "patch_pt_2 t1 = patch_pt_2 t" "trade_block t1 = trade_block t"
      "input_block t1 = input_block t"
    by auto
  from recv_INIT [OF s1 c1, of X SERIAL_PREAMBLE_BYTE]
  obtain r t2 where r2: "recv X t1 SERIAL_PREAMBLE_BYTE = Inr (r, t2)"
    and s2: "trade_centre_state t2 = TRADE_RANDOM" and c2: "counter t2 = 0"
    and f2: "patch_pt_2 t2 = patch_pt_2 t1" "trade_block t2 = trade_block t1"
      "input_block t2 = input_block t1"
    by auto
  from recvs_snocI [OF r1 r2] s2 c2 f1 f2 show ?thesis by simp
qed

lemma random_phase_complete:
  assumes "trade_centre_state t = TRADE_RANDOM" and "counter t = 0" and "length ys = 19"
  shows "\<exists>t'. recvs X t ys = Inr (ys, t') \<and>
           trade_centre_state t' = TRADE_DATA \<and> counter t' = 0 \<and>
           patch_pt_2 t' = patch_pt_2 t \<and> trade_block t' = trade_block t \<and>
           input_block t' = input_block t"
proof -
  have ys: "take 18 ys @ [ys ! 18] = ys"
    using assms(3) take_Suc_conv_app_nth [of 18 ys] by simp
  have c0: "counter t = int 0" using assms(2) by simp
  have "0 + length (take 18 ys) < 19" by simp
  from random_run [OF assms(1) c0 this, of X] assms(3)
  obtain t1 where r1: "recvs X t (take 18 ys) = Inr (take 18 ys, t1)"
    and s1: "trade_centre_state t1 = TRADE_RANDOM" and c1: "counter t1 = int 18"
    and f1: "patch_pt_2 t1 = patch_pt_2 t" "trade_block t1 = trade_block t"
      "input_block t1 = input_block t"
    by auto
  from recv_RANDOM [OF s1 c1, of X "ys ! 18"]
  obtain t2 where r2: "recv X t1 (ys ! 18) = Inr (ys ! 18, t2)"
    and s2: "trade_centre_state t2 = TRADE_DATA" and c2: "counter t2 = 0"
    and f2: "patch_pt_2 t2 = patch_pt_2 t1" "trade_block t2 = trade_block t1"
      "input_block t2 = input_block t1"
    by auto
  from recvs_snocI [OF r1 r2] ys have "recvs X t ys = Inr (ys, t2)" by simp
  with s2 c2 f1 f2 show ?thesis by simp
qed

lemma data_phase_complete:
  assumes "trade_centre_state t = TRADE_DATA" and "counter t = 0"
    and "length (input_block t) = sizeof_TradeBlock X"
    and "length (trade_block t) = sizeof_TradeBlock X"
    and "0 < sizeof_TradeBlock X" and "int (sizeof_TradeBlock X) \<le> INT_MAX"
    and "length bs = sizeof_TradeBlock X"
  shows "\<exists>t'. recvs X t bs = Inr (trade_block t, t') \<and>
           trade_centre_state t' = TRADE_PATCH_HEADER \<and> counter t' = 0 \<and>
           input_block t' = bs \<and> trade_block t' = trade_block t \<and>
           patch_pt_2 t' = patch_pt_2 t"
proof -
  have c0: "counter t = int 0" using assms(2) by simp
  define N where "N = sizeof_TradeBlock X - 1"
  have N: "N < sizeof_TradeBlock X" "N + 1 = sizeof_TradeBlock X"
    using assms(5) by (simp_all add: N_def)
  have "0 + length (take N bs) < sizeof_TradeBlock X" using N assms(7) by simp
  from data_run [OF assms(1) c0 assms(3,4,6) this] N assms(7)
  obtain t1 where r1: "recvs X t (take N bs) = Inr (take N (trade_block t), t1)"
    and s1: "trade_centre_state t1 = TRADE_DATA" and c1: "counter t1 = int N"
    and i1: "input_block t1 = take N bs @ drop N (input_block t)"
    and b1: "trade_block t1 = trade_block t" and p1: "patch_pt_2 t1 = patch_pt_2 t"
    by auto
  have l1: "N < length (input_block t1)" "N < length (trade_block t1)" "int N < INT_MAX"
    using i1 b1 N assms(3,4,6,7) by auto
  from recv_DATA [OF s1 c1 l1, of X "bs ! N"] N(2)
  obtain t2 where r2: "recv X t1 (bs ! N) = Inr (trade_block t1 ! N, t2)"
    and s2: "trade_centre_state t2 = TRADE_PATCH_HEADER" and c2: "counter t2 = 0"
    and i2: "input_block t2 = (input_block t1)[N := bs ! N]"
    and b2: "trade_block t2 = trade_block t1" and p2: "patch_pt_2 t2 = patch_pt_2 t1"
    by auto
  have bs: "take N bs @ [bs ! N] = bs"
    using N assms(7) take_Suc_conv_app_nth [of N bs] by simp
  have tb: "take N (trade_block t) @ [trade_block t ! N] = trade_block t"
    using N assms(4) take_Suc_conv_app_nth [of N "trade_block t"] by simp
  have ib: "(take N bs @ drop N (input_block t))[N := bs ! N] = bs"
  proof -
    have "length (take N bs) = N" using N assms(7) by simp
    then have "(take N bs @ drop N (input_block t))[N := bs ! N] =
        take N bs @ (drop N (input_block t))[0 := bs ! N]"
      by (simp add: list_update_append)
    moreover have "(drop N (input_block t))[0 := bs ! N] = [bs ! N]"
    proof -
      have "length (drop N (input_block t)) = 1" using N assms(3) by simp
      then obtain x where "drop N (input_block t) = [x]"
        by (cases "drop N (input_block t)") auto
      then show ?thesis by simp
    qed
    ultimately show ?thesis using bs by simp
  qed
  from recvs_snocI [OF r1 r2] bs tb b1
  have "recvs X t bs = Inr (trade_block t, t2)" by simp
  with s2 c2 i2 i1 ib b2 b1 p1 p2 show ?thesis by simp
qed

lemma patch_phase_complete:
  assumes "trade_centre_state t = TRADE_PATCH_HEADER" and "counter t = 0"
    and "\<not> patch_pt_2 t" and "offsetof_party X + 252 < length (input_block t)"
  shows "\<exists>rs t'. recvs X t (replicate 6 SERIAL_PREAMBLE_BYTE @ replicate 195 PKMN_BLANK) =
             Inr (rs, t') \<and>
           trade_centre_state t' = TRADE_SELECT \<and> counter t' = 196 \<and> \<not> patch_pt_2 t' \<and>
           trade_block t' = trade_block t \<and>
           input_block t' = (input_block t)[offsetof_party X + 252 := SERIAL_NO_DATA_BYTE]"
proof -
  have c0: "counter t = int 0" using assms(2) by simp
  have "0 + count_list (replicate 5 SERIAL_PREAMBLE_BYTE) SERIAL_PREAMBLE_BYTE < 6"
    by (simp add: count_list_replicate_same)
  from patch_header_run [OF assms(1) c0 this assms(3,4)]
  obtain t1 where r1: "recvs X t (replicate 5 SERIAL_PREAMBLE_BYTE) =
      Inr (replicate 5 SERIAL_PREAMBLE_BYTE, t1)"
    and s1: "trade_centre_state t1 = TRADE_PATCH_HEADER" and c1: "counter t1 = int 5"
    and f1: "\<not> patch_pt_2 t1" "trade_block t1 = trade_block t" "input_block t1 = input_block t"
    by (auto simp: count_list_replicate_same)
  from assms(4) f1 have l1: "offsetof_party X + 252 < length (input_block t1)" by simp
  from recv_PATCH_HEADER [OF s1 c1 _ f1(1) l1, of SERIAL_PREAMBLE_BYTE]
  obtain t2 where r2: "recv X t1 SERIAL_PREAMBLE_BYTE = Inr (SERIAL_PREAMBLE_BYTE, t2)"
    and s2: "trade_centre_state t2 = TRADE_PATCH_DATA" and c2: "counter t2 = int 1"
    and f2: "\<not> patch_pt_2 t2" "trade_block t2 = trade_block t1"
      "input_block t2 = (input_block t1)[offsetof_party X + 252 := SERIAL_NO_DATA_BYTE]"
    by auto
  have "1 + 194 < (196::nat)" by simp
  from patch_data_blank_run [OF s2 c2 this, of X]
  obtain rs3 t3 where r3: "recvs X t2 (replicate 194 PKMN_BLANK) = Inr (rs3, t3)"
    and s3: "trade_centre_state t3 = TRADE_PATCH_DATA" and c3: "counter t3 = int 195"
    and f3: "patch_pt_2 t3 = patch_pt_2 t2" "trade_block t3 = trade_block t2"
      "input_block t3 = input_block t2"
    by auto
  from recv_PATCH_DATA_blank [OF s3 c3, of X]
  obtain r4 t4 where r4: "recv X t3 PKMN_BLANK = Inr (r4, t4)"
    and s4: "trade_centre_state t4 = TRADE_SELECT" and c4: "counter t4 = 196"
    and f4: "patch_pt_2 t4 = patch_pt_2 t3" "trade_block t4 = trade_block t3"
      "input_block t4 = input_block t3"
    by auto
  have e1: "replicate 6 SERIAL_PREAMBLE_BYTE = replicate 5 SERIAL_PREAMBLE_BYTE @ [SERIAL_PREAMBLE_BYTE]"
    using replicate_add [of 5 1 SERIAL_PREAMBLE_BYTE] by simp
  have e2: "replicate 195 PKMN_BLANK = replicate 194 PKMN_BLANK @ [PKMN_BLANK]"
    using replicate_add [of 194 1 PKMN_BLANK] by simp
  from recvs_appendI [OF recvs_snocI [OF r1 r2] recvs_snocI [OF r3 r4]] e1 e2
  have "recvs X t (replicate 6 SERIAL_PREAMBLE_BYTE @ replicate 195 PKMN_BLANK) =
      Inr ((replicate 5 SERIAL_PREAMBLE_BYTE @ [SERIAL_PREAMBLE_BYTE]) @ rs3 @ [r4], t4)"
    by simp
  with s4 c4 f1 f2 f3 f4 show ?thesis by simp
qed

lemma recv_RESET:
  assumes "trade_centre_state t = TRADE_RESET"
  shows "\<exists>t'. recv X t b = Inr (b, t') \<and> trade_centre_state t' = TRADE_INIT \<and>
           counter t' = 0 \<and> \<not> patch_pt_2 t' \<and> trade_block t' = trade_block t \<and>
           input_block t' = input_block t"
  using assms by (simp add: recv_def getTradeCentreResponse_def case_TRADE_RESET_def)

lemma session_reaches_confirmation:
  assumes "trade_centre_state t = TRADE_RESET"
    and "length (input_block t) = sizeof_TradeBlock X"
    and "length (trade_block t) = sizeof_TradeBlock X"
    and "int (sizeof_TradeBlock X) \<le> INT_MAX"
    and "offsetof_party X + 252 < sizeof_TradeBlock X"
    and "count_list xs SERIAL_PREAMBLE_BYTE = 9" and "length ys = 19"
    and "length bs = sizeof_TradeBlock X"
    and "sel AND PKMN_SEL_NUM_MASK = PKMN_SEL_NUM_MASK" and "sel \<noteq> PKMN_TABLE_LEAVE"
  shows "\<exists>rs t'. recvs X t ([b0] @ (xs @ [SERIAL_PREAMBLE_BYTE]) @ ys @ bs @
                (replicate 6 SERIAL_PREAMBLE_BYTE @ replicate 195 PKMN_BLANK) @
                [PKMN_BLANK, sel, PKMN_BLANK]) = Inr (rs, t') \<and>
           trade_centre_state t' = TRADE_CONFIRMATION \<and> counter t' = 196 \<and>
           in_pokemon_num t' = sel AND 0x0F \<and> trade_block t' = trade_block t \<and>
           input_block t' = bs[offsetof_party X + 252 := SERIAL_NO_DATA_BYTE]"
proof -
  from recv_RESET [OF assms(1), of X b0]
  obtain t1 where r1: "recv X t b0 = Inr (b0, t1)"
    and s1: "trade_centre_state t1 = TRADE_INIT" and c1: "counter t1 = 0"
    and p1: "\<not> patch_pt_2 t1" and f1: "trade_block t1 = trade_block t"
      "input_block t1 = input_block t"
    by blast
  from r1 have r1': "recvs X t [b0] = Inr ([b0], t1)" by (simp add: bind_err_def)
  from init_phase_complete [OF s1 c1 assms(6), of X]
  obtain rs2 t2 where r2: "recvs X t1 (xs @ [SERIAL_PREAMBLE_BYTE]) = Inr (rs2, t2)"
    and s2: "trade_centre_state t2 = TRADE_RANDOM" and c2: "counter t2 = 0"
    and f2: "patch_pt_2 t2 = patch_pt_2 t1" "trade_block t2 = trade_block t1"
      "input_block t2 = input_block t1"
    by blast
  from random_phase_complete [OF s2 c2 assms(7), of X]
  obtain t3 where r3: "recvs X t2 ys = Inr (ys, t3)"
    and s3: "trade_centre_state t3 = TRADE_DATA" and c3: "counter t3 = 0"
    and f3: "patch_pt_2 t3 = patch_pt_2 t2" "trade_block t3 = trade_block t2"
      "input_block t3 = input_block t2"
    by blast
  have l3: "length (input_block t3) = sizeof_TradeBlock X"
    "length (trade_block t3) = sizeof_TradeBlock X" "0 < sizeof_TradeBlock X"
    using f1 f2 f3 assms(2,3,5) by simp_all
  from data_phase_complete [OF s3 c3 l3 assms(4,8)]
  obtain t4 where r4: "recvs X t3 bs = Inr (trade_block t3, t4)"
    and s4: "trade_centre_state t4 = TRADE_PATCH_HEADER" and c4: "counter t4 = 0"
    and f4: "input_block t4 = bs" "trade_block t4 = trade_block t3"
      "patch_pt_2 t4 = patch_pt_2 t3"
    by blast
  have p4: "\<not> patch_pt_2 t4" and l4: "offsetof_party X + 252 < length (input_block t4)"
    using p1 f2 f3 f4 assms(5,8) by simp_all
  from patch_phase_complete [OF s4 c4 p4 l4]
  obtain rs5 t5 where
    r5: "recvs X t4 (replicate 6 SERIAL_PREAMBLE_BYTE @ replicate 195 PKMN_BLANK) = Inr (rs5, t5)"
    and s5: "trade_centre_state t5 = TRADE_SELECT" and c5: "counter t5 = 196"
    and f5: "trade_block t5 = trade_block t4"
      "input_block t5 = (input_block t4)[offsetof_party X + 252 := SERIAL_NO_DATA_BYTE]"
    by blast
  from select_to_confirmation [OF s5 assms(9,10), of X]
  obtain t6 where
    r6: "recvs X t5 [PKMN_BLANK, sel, PKMN_BLANK] = Inr ([PKMN_BLANK, PKMN_SEL_NUM_ONE, PKMN_BLANK], t6)"
    and s6: "trade_centre_state t6 = TRADE_CONFIRMATION" and c6: "counter t6 = counter t5"
    and f6: "in_pokemon_num t6 = sel AND 0x0F" "trade_block t6 = trade_block t5"
      "input_block t6 = input_block t5"
    by blast
  note recvs_appendI [OF r1' recvs_appendI [OF r2 recvs_appendI [OF r3
    recvs_appendI [OF r4 recvs_appendI [OF r5 r6]]]]]
  with s6 c6 c5 f1 f2 f3 f4 f5 f6 show ?thesis by simp
qed

lemma recv_CONFIRMATION_reject:
  assumes "trade_centre_state t = TRADE_CONFIRMATION"
  shows "\<exists>t'. recv X t PKMN_TRADE_REJECT = Inr (PKMN_TRADE_REJECT, t') \<and>
           trade_centre_state t' = TRADE_SELECT \<and> counter t' = counter t"
  using assms
  by (simp add: recv_def getTradeCentreResponse_def case_TRADE_CONFIRMATION_def set_status_def)

subsection \<open>The shape of every step\<close>

lemma step_shape:
  assumes "getTradeCentreResponse X t = Inr (r, t')"
  shows "case trade_centre_state t of
      TRADE_RESET \<Rightarrow> trade_centre_state t' = TRADE_INIT \<and> counter t' = 0
    | TRADE_INIT \<Rightarrow>
        trade_centre_state t' = TRADE_INIT \<or> trade_centre_state t' = TRADE_RANDOM \<and> counter t' = 0
    | TRADE_RANDOM \<Rightarrow>
        trade_centre_state t' = TRADE_RANDOM \<or> trade_centre_state t' = TRADE_DATA \<and> counter t' = 0
    | TRADE_DATA \<Rightarrow>
        trade_centre_state t' = TRADE_DATA \<or>
        trade_centre_state t' = TRADE_PATCH_HEADER \<and> counter t' = 0
    | TRADE_PATCH_HEADER \<Rightarrow>
        trade_centre_state t' = TRADE_PATCH_HEADER \<or>
        trade_centre_state t' = TRADE_PATCH_DATA \<and> counter t' = 1
    | TRADE_PATCH_DATA \<Rightarrow>
        trade_centre_state t' = TRADE_PATCH_DATA \<or>
        trade_centre_state t' = TRADE_SELECT \<and> counter t' = 196
    | TRADE_SELECT \<Rightarrow>
        (trade_centre_state t' = TRADE_SELECT \<or> trade_centre_state t' = TRADE_PENDING) \<and>
        counter t' = counter t
    | TRADE_PENDING \<Rightarrow>
        (trade_centre_state t' = TRADE_PENDING \<or> trade_centre_state t' = TRADE_RESET \<or>
         trade_centre_state t' = TRADE_CONFIRMATION) \<and> counter t' = counter t
    | TRADE_CONFIRMATION \<Rightarrow>
        (trade_centre_state t' = TRADE_CONFIRMATION \<or> trade_centre_state t' = TRADE_SELECT \<or>
         trade_centre_state t' = TRADE_DONE) \<and> counter t' = counter t
    | TRADE_DONE \<Rightarrow>
        (trade_centre_state t' = TRADE_DONE \<or> trade_centre_state t' = TRADE_RESET) \<and>
        counter t' = counter t"
proof (cases "trade_centre_state t")
  case TRADE_RESET
  with assms show ?thesis
    by (auto simp: getTradeCentreResponse_def case_TRADE_RESET_def)
next
  case TRADE_INIT
  with assms show ?thesis
    by (auto simp: getTradeCentreResponse_def case_TRADE_INIT_def bind_err_def incr_def
          set_status_def split: if_splits)
next
  case TRADE_RANDOM
  with assms show ?thesis
    by (auto simp: getTradeCentreResponse_def case_TRADE_RANDOM_def bind_err_def incr_def
          split: if_splits)
next
  case TRADE_DATA
  with assms show ?thesis
    by (auto simp: getTradeCentreResponse_def case_TRADE_DATA_def bind_err_def incr_def
          load_def store_def split: if_splits)
next
  case TRADE_PATCH_HEADER
  with assms show ?thesis
    by (auto simp: getTradeCentreResponse_def case_TRADE_PATCH_HEADER_def
          case_TRADE_PATCH_DATA_def bind_err_def incr_def store_def Let_def split: if_splits)
next
  case TRADE_PATCH_DATA
  with assms show ?thesis
    by (auto simp: getTradeCentreResponse_def case_TRADE_PATCH_DATA_def bind_err_def incr_def
          store_def Let_def split: if_splits)
next
  case TRADE_SELECT
  with assms show ?thesis
    by (auto simp: getTradeCentreResponse_def case_TRADE_SELECT_def case_TRADE_PENDING_def
          set_status_def split: if_splits)
next
  case TRADE_PENDING
  with assms show ?thesis
    by (auto simp: getTradeCentreResponse_def case_TRADE_PENDING_def set_status_def
          split: if_splits)
next
  case TRADE_CONFIRMATION
  with assms show ?thesis
    by (auto simp: getTradeCentreResponse_def case_TRADE_CONFIRMATION_def set_status_def
          split: if_splits)
next
  case TRADE_DONE
  with assms show ?thesis
    by (auto simp: getTradeCentreResponse_def case_TRADE_DONE_def bind_err_eq_Inr Let_def
          split: if_splits)
qed

subsection \<open>Copying a slot\<close>

lemma length_copy_bytes [simp]: "length (copy_bytes dst d src s n) = length dst"
  by (simp add: copy_bytes_def)

lemma nth_copy_bytes:
  "i < length dst \<Longrightarrow>
   copy_bytes dst d src s n ! i = (if d \<le> i \<and> i < d + n then src ! (s + (i - d)) else dst ! i)"
  by (simp add: copy_bytes_def)

lemma length_slice: "off + n \<le> length m \<Longrightarrow> length (slice m off n) = n"
  by (simp add: slice_def)

lemma nth_slice: "off + n \<le> length m \<Longrightarrow> j < n \<Longrightarrow> slice m off n ! j = m ! (off + j)"
  by (simp add: slice_def)

lemma slice_eqI:
  assumes "off + n \<le> length m" and "off' + n \<le> length m'"
    and "\<And>j. j < n \<Longrightarrow> m ! (off + j) = m' ! (off' + j)"
  shows "slice m off n = slice m' off' n"
  using assms by (intro nth_equalityI) (simp_all add: length_slice nth_slice)

lemma slot_fits:
  assumes "k < 6" and "off + 6 * sz \<le> (N::nat)"
  shows "off + k * sz + sz \<le> N"
proof -
  have "Suc k * sz \<le> 6 * sz" by (rule mult_le_mono1) (use assms(1) in simp)
  then have "k * sz + sz \<le> 6 * sz" by (simp only: mult_Suc add.commute)
  with assms(2) show ?thesis by linarith
qed

lemma pending_to_done:
  assumes "trade_centre_state t = TRADE_PENDING"
    and "b AND PKMN_SEL_NUM_MASK = PKMN_SEL_NUM_MASK" and "b \<noteq> PKMN_TABLE_LEAVE"
  shows "\<exists>t'. recvs X t [b, PKMN_BLANK, PKMN_TRADE_ACCEPT] =
             Inr ([PKMN_SEL_NUM_ONE, PKMN_BLANK, PKMN_TRADE_ACCEPT], t') \<and>
           trade_centre_state t' = TRADE_DONE \<and> in_pokemon_num t' = b AND 0x0F \<and>
           trade_block t' = trade_block t \<and> input_block t' = input_block t"
proof -
  from assms(2) have "b \<noteq> 0" by auto
  with assms show ?thesis
    by (auto simp: recv_def getTradeCentreResponse_def case_TRADE_PENDING_def
          case_TRADE_CONFIRMATION_def bind_err_def set_status_def)
qed

lemma recv_DONE_blank:
  assumes "trade_centre_state t = TRADE_DONE" and "unat (in_pokemon_num t) = k" and "k < 6"
    and "layout_ok X"
    and "length (trade_block t) = sizeof_TradeBlock X"
    and "length (input_block t) = sizeof_TradeBlock X"
  shows "\<exists>t'. recv X t PKMN_BLANK = Inr (PKMN_BLANK, t') \<and>
           trade_centre_state t' = TRADE_RESET \<and> input_block t' = input_block t \<and>
           trade_block t' =
             copy_bytes
               (copy_bytes
                  (copy_bytes
                     ((trade_block t)[offsetof_party_members X :=
                        input_block t ! (offsetof_party_members X + k)])
                     (offsetof_party X) (input_block t)
                     (offsetof_party X + k * sizeof_pokemon_structure X)
                     (sizeof_pokemon_structure X))
                  (offsetof_nickname X) (input_block t)
                  (offsetof_nickname X + k * sizeof_name X) (sizeof_name X))
               (offsetof_ot_name X) (input_block t)
               (offsetof_ot_name X + k * sizeof_name X) (sizeof_name X)"
proof -
  let ?N = "sizeof_TradeBlock X"
  from assms(4) have fit: "offsetof_party_members X + 6 \<le> ?N"
    "offsetof_party X + 6 * sizeof_pokemon_structure X \<le> ?N"
    "offsetof_nickname X + 6 * sizeof_name X \<le> ?N"
    "offsetof_ot_name X + 6 * sizeof_name X \<le> ?N"
    by (simp_all add: layout_ok_def Let_def)
  have a: "offsetof_party_members X + k < ?N" "offsetof_party_members X < ?N"
    using fit(1) assms(3) by simp_all
  have b: "offsetof_party X + k * sizeof_pokemon_structure X + sizeof_pokemon_structure X \<le> ?N"
    "offsetof_nickname X + k * sizeof_name X + sizeof_name X \<le> ?N"
    "offsetof_ot_name X + k * sizeof_name X + sizeof_name X \<le> ?N"
    using slot_fits [OF assms(3)] fit by simp_all
  have c: "offsetof_party X + sizeof_pokemon_structure X \<le> ?N"
    "offsetof_nickname X + sizeof_name X \<le> ?N" "offsetof_ot_name X + sizeof_name X \<le> ?N"
    using fit by simp_all
  from assms(1,2,5,6) a b c show ?thesis
    by (simp add: recv_def getTradeCentreResponse_def case_TRADE_DONE_def bind_err_def Let_def
          load_def store_def memcpy_def nat_int_add)
qed

subsection \<open>Patch markers\<close>

text \<open>
  What the patch-data case does with a received byte \<open>m\<close>. A zero leaves the scratch
  block and the part-2 flag as they are. The terminator 0xFF sets the part-2 flag and
  leaves the scratch block as it is; once set, the flag stays set through every later
  byte until the machine is reset. Any other \<open>m\<close> writes the no-data filler 0xFE to
  one byte, counted from the start of the party region of the scratch block: byte
  \<open>m - 1\<close> before the terminator, byte \<open>0xFB + m\<close> after it, and nothing else in the
  block changes, as long as that byte is inside the block. The index is not checked.
\<close>

lemma patch_data_marker:
  assumes "trade_centre_state t = TRADE_PATCH_DATA" and "counter t < INT_MAX"
  shows "(in_data t = PKMN_BLANK \<longrightarrow>
            (\<exists>r t'. getTradeCentreResponse X t = Inr (r, t') \<and>
               input_block t' = input_block t \<and> patch_pt_2 t' = patch_pt_2 t)) \<and>
         (in_data t = SERIAL_PATCH_LIST_PART_TERMINATOR \<longrightarrow>
            (\<exists>r t'. getTradeCentreResponse X t = Inr (r, t') \<and>
               input_block t' = input_block t \<and> patch_pt_2 t')) \<and>
         (in_data t \<noteq> PKMN_BLANK \<and> in_data t \<noteq> SERIAL_PATCH_LIST_PART_TERMINATOR \<and>
          \<not> patch_pt_2 t \<and> offsetof_party X + (unat (in_data t) - 1) < length (input_block t) \<longrightarrow>
            (\<exists>r t'. getTradeCentreResponse X t = Inr (r, t') \<and> \<not> patch_pt_2 t' \<and>
               input_block t' =
                 (input_block t)[offsetof_party X + (unat (in_data t) - 1) := SERIAL_NO_DATA_BYTE])) \<and>
         (in_data t \<noteq> PKMN_BLANK \<and> in_data t \<noteq> SERIAL_PATCH_LIST_PART_TERMINATOR \<and>
          patch_pt_2 t \<and> offsetof_party X + (0xFB + unat (in_data t)) < length (input_block t) \<longrightarrow>
            (\<exists>r t'. getTradeCentreResponse X t = Inr (r, t') \<and> patch_pt_2 t' \<and>
               input_block t' =
                 (input_block t)[offsetof_party X + (0xFB + unat (in_data t)) := SERIAL_NO_DATA_BYTE])) \<and>
         (\<forall>u r u'. patch_pt_2 u \<and> trade_centre_state u \<noteq> TRADE_RESET \<and>
            getTradeCentreResponse X u = Inr (r, u') \<longrightarrow> patch_pt_2 u')"
proof (intro conjI impI allI)
  assume "in_data t = PKMN_BLANK"
  with assms show "\<exists>r t'. getTradeCentreResponse X t = Inr (r, t') \<and>
      input_block t' = input_block t \<and> patch_pt_2 t' = patch_pt_2 t"
    by (auto simp: getTradeCentreResponse_def case_TRADE_PATCH_DATA_def incr_def bind_err_def
          Let_def)
next
  assume "in_data t = SERIAL_PATCH_LIST_PART_TERMINATOR"
  with assms show "\<exists>r t'. getTradeCentreResponse X t = Inr (r, t') \<and>
      input_block t' = input_block t \<and> patch_pt_2 t'"
    by (auto simp: getTradeCentreResponse_def case_TRADE_PATCH_DATA_def incr_def bind_err_def
          Let_def)
next
  assume a: "in_data t \<noteq> PKMN_BLANK \<and> in_data t \<noteq> SERIAL_PATCH_LIST_PART_TERMINATOR \<and>
      \<not> patch_pt_2 t \<and> offsetof_party X + (unat (in_data t) - 1) < length (input_block t)"
  then have pos: "1 \<le> uint (in_data t)" by (simp add: uint8_pos)
  then have nn: "0 \<le> int (offsetof_party X) + (uint (in_data t) - 1)" by simp
  note pos
  moreover have "unat (in_data t) = nat (uint (in_data t))" by (rule unat_eq_nat_uint)
  ultimately have "nat (int (offsetof_party X) + (uint (in_data t) - 1)) =
      offsetof_party X + (unat (in_data t) - 1)"
    by arith
  with a nn assms show "\<exists>r t'. getTradeCentreResponse X t = Inr (r, t') \<and> \<not> patch_pt_2 t' \<and>
      input_block t' =
        (input_block t)[offsetof_party X + (unat (in_data t) - 1) := SERIAL_NO_DATA_BYTE]"
    by (auto simp: getTradeCentreResponse_def case_TRADE_PATCH_DATA_def incr_def bind_err_def
          Let_def store_def)
next
  assume a: "in_data t \<noteq> PKMN_BLANK \<and> in_data t \<noteq> SERIAL_PATCH_LIST_PART_TERMINATOR \<and>
      patch_pt_2 t \<and> offsetof_party X + (0xFB + unat (in_data t)) < length (input_block t)"
  have "unat (in_data t) = nat (uint (in_data t))" by (rule unat_eq_nat_uint)
  moreover have "0 \<le> uint (in_data t)" by simp
  ultimately have "nat (int (offsetof_party X) + (0xFB + uint (in_data t))) =
      offsetof_party X + (0xFB + unat (in_data t))"
    by arith
  with a assms show "\<exists>r t'. getTradeCentreResponse X t = Inr (r, t') \<and> patch_pt_2 t' \<and>
      input_block t' =
        (input_block t)[offsetof_party X + (0xFB + unat (in_data t)) := SERIAL_NO_DATA_BYTE]"
    by (auto simp: getTradeCentreResponse_def case_TRADE_PATCH_DATA_def incr_def bind_err_def
          Let_def store_def)
next
  fix u :: "'a trade_ctx" and r u'
  assume "patch_pt_2 u \<and> trade_centre_state u \<noteq> TRADE_RESET \<and>
      getTradeCentreResponse X u = Inr (r, u')"
  then show "patch_pt_2 u'"
    by (cases "trade_centre_state u")
       (auto simp: getTradeCentreResponse_def case_defs bind_err_def incr_def set_status_def
          Let_def split: if_splits sum.splits)
qed

text \<open>
  Before the terminator the position \<open>m - 1\<close> is at most 0xFD: when the party region
  has the 0x108 bytes of six creature records (at least 0xFE is enough) and lies inside
  the block, the write always succeeds and always lands in the party region.
\<close>

lemma patch_marker_part_1_inside_party:
  assumes "trade_centre_state t = TRADE_PATCH_DATA" and "counter t < INT_MAX"
    and "in_data t \<noteq> PKMN_BLANK" and "in_data t \<noteq> SERIAL_PATCH_LIST_PART_TERMINATOR"
    and "\<not> patch_pt_2 t" and "0xFE \<le> 6 * sizeof_pokemon_structure X"
    and "offsetof_party X + 6 * sizeof_pokemon_structure X \<le> length (input_block t)"
  shows "\<exists>r t'. getTradeCentreResponse X t = Inr (r, t') \<and>
           input_block t' =
             (input_block t)[offsetof_party X + (unat (in_data t) - 1) := SERIAL_NO_DATA_BYTE] \<and>
           unat (in_data t) - 1 < 6 * sizeof_pokemon_structure X"
proof -
  have "unat (in_data t) < 2 ^ LENGTH(8)" by (rule unsigned_less)
  then have "unat (in_data t) < 256" by simp
  moreover have "unat (in_data t) \<noteq> 255"
  proof
    assume "unat (in_data t) = 255"
    then have "in_data t = 255" by (simp add: word_unat_eq_iff)
    with assms(4) show False by simp
  qed
  ultimately have b: "unat (in_data t) - 1 < 0xFE" by simp
  with assms(6,7) have
    "offsetof_party X + (unat (in_data t) - 1) < length (input_block t)" by simp
  with patch_data_marker [OF assms(1,2), of X] assms(3,4,5) b assms(6)
  show ?thesis by fastforce
qed

text \<open>
  After the terminator the position \<open>0xFB + m\<close> is inside a party region of 0x108 bytes
  exactly for the markers up to 0x0C; every larger marker addresses a byte behind it.
\<close>

lemma patch_marker_part_2_inside_party:
  "0xFB + unat (m::uint8_t) < 6 * sizeof_pokemon_structure gen1_externs \<longleftrightarrow> m \<le> 0x0C"
  by (simp add: gen1_externs_def word_le_nat_alt) arith

text \<open>
  With the part-2 flag set and a position at or beyond the end of the block, the write
  is outside the allocation.
\<close>

lemma patch_marker_part_2_outside_block:
  assumes "trade_centre_state t = TRADE_PATCH_DATA" and "counter t < INT_MAX"
    and "in_data t \<noteq> PKMN_BLANK" and "in_data t \<noteq> SERIAL_PATCH_LIST_PART_TERMINATOR"
    and "patch_pt_2 t"
    and "length (input_block t) \<le> offsetof_party X + (0xFB + unat (in_data t))"
  shows "getTradeCentreResponse X t = Inl OutOfBounds"
proof -
  have "unat (in_data t) = nat (uint (in_data t))" by (rule unat_eq_nat_uint)
  moreover have "0 \<le> uint (in_data t)" by simp
  ultimately have "nat (int (offsetof_party X) + (0xFB + uint (in_data t))) =
      offsetof_party X + (0xFB + unat (in_data t))"
    by arith
  with assms show ?thesis
    by (simp add: getTradeCentreResponse_def case_TRADE_PATCH_DATA_def incr_def bind_err_def
          Let_def store_def)
qed

text \<open>
  Single steps in the 415-byte block. After the terminator the marker 0x0D writes byte
  283 of the scratch block, the first byte after the party region (bytes 19 to 282),
  and the party region itself is unchanged; the marker 0xFE addresses a byte past the
  end of the block.
\<close>

lemma patch_marker_outside_party_region:
  "getTradeCentreResponse gen1_externs (patch_ctx True 0x0D) =
     Inr (0x00, (patch_ctx True 0x0D)
            \<lparr>counter := 11,
             input_block := (input_block (patch_ctx True 0x0D))[283 := SERIAL_NO_DATA_BYTE]\<rparr>) \<and>
   slice ((input_block (patch_ctx True 0x0D))[283 := SERIAL_NO_DATA_BYTE])
       (offsetof_party gen1_externs) (6 * sizeof_pokemon_structure gen1_externs) =
     slice (input_block (patch_ctx True 0x0D))
       (offsetof_party gen1_externs) (6 * sizeof_pokemon_structure gen1_externs) \<and>
   offsetof_party gen1_externs + 6 * sizeof_pokemon_structure gen1_externs = 283"
  by (simp add: getTradeCentreResponse_def case_TRADE_PATCH_DATA_def incr_def bind_err_def
        Let_def store_def patch_ctx_def entered_ctx_def gen1_externs_def slice_def
        drop_update_swap)

lemma patch_marker_outside_block:
  "getTradeCentreResponse gen1_externs (patch_ctx True 0xFE) = Inl OutOfBounds"
  by (simp add: getTradeCentreResponse_def case_TRADE_PATCH_DATA_def incr_def bind_err_def
        Let_def store_def patch_ctx_def entered_ctx_def gen1_externs_def)

subsection \<open>A session up to the patch data\<close>

lemma patch_header_complete:
  assumes "trade_centre_state t = TRADE_PATCH_HEADER" and "counter t = 0"
    and "\<not> patch_pt_2 t" and "offsetof_party X + 252 < length (input_block t)"
  shows "\<exists>t'. recvs X t (replicate 5 SERIAL_PREAMBLE_BYTE @ [SERIAL_PREAMBLE_BYTE]) =
             Inr (replicate 5 SERIAL_PREAMBLE_BYTE @ [SERIAL_PREAMBLE_BYTE], t') \<and>
           trade_centre_state t' = TRADE_PATCH_DATA \<and> counter t' = 1 \<and> \<not> patch_pt_2 t' \<and>
           trade_block t' = trade_block t \<and>
           input_block t' = (input_block t)[offsetof_party X + 252 := SERIAL_NO_DATA_BYTE]"
proof -
  have c0: "counter t = int 0" using assms(2) by simp
  have "0 + count_list (replicate 5 SERIAL_PREAMBLE_BYTE) SERIAL_PREAMBLE_BYTE < 6"
    by (simp add: count_list_replicate_same)
  from patch_header_run [OF assms(1) c0 this assms(3,4)]
  obtain t1 where r1: "recvs X t (replicate 5 SERIAL_PREAMBLE_BYTE) =
      Inr (replicate 5 SERIAL_PREAMBLE_BYTE, t1)"
    and s1: "trade_centre_state t1 = TRADE_PATCH_HEADER" and c1: "counter t1 = int 5"
    and f1: "\<not> patch_pt_2 t1" "trade_block t1 = trade_block t" "input_block t1 = input_block t"
    by (auto simp: count_list_replicate_same)
  from assms(4) f1 have l1: "offsetof_party X + 252 < length (input_block t1)" by simp
  from recv_PATCH_HEADER [OF s1 c1 _ f1(1) l1, of SERIAL_PREAMBLE_BYTE]
  obtain t2 where r2: "recv X t1 SERIAL_PREAMBLE_BYTE = Inr (SERIAL_PREAMBLE_BYTE, t2)"
    and s2: "trade_centre_state t2 = TRADE_PATCH_DATA" and c2: "counter t2 = 1"
    and f2: "\<not> patch_pt_2 t2" "trade_block t2 = trade_block t1"
      "input_block t2 = (input_block t1)[offsetof_party X + 252 := SERIAL_NO_DATA_BYTE]"
    by auto
  from recvs_snocI [OF r1 r2] s2 c2 f1 f2 show ?thesis by simp
qed

lemma session_reaches_patch_data:
  assumes "trade_centre_state t = TRADE_RESET"
    and "length (input_block t) = sizeof_TradeBlock X"
    and "length (trade_block t) = sizeof_TradeBlock X"
    and "int (sizeof_TradeBlock X) \<le> INT_MAX"
    and "offsetof_party X + 252 < sizeof_TradeBlock X"
    and "count_list xs SERIAL_PREAMBLE_BYTE = 9" and "length ys = 19"
    and "length bs = sizeof_TradeBlock X"
  shows "\<exists>rs t'. recvs X t ([b0] @ (xs @ [SERIAL_PREAMBLE_BYTE]) @ ys @ bs @
                (replicate 5 SERIAL_PREAMBLE_BYTE @ [SERIAL_PREAMBLE_BYTE])) = Inr (rs, t') \<and>
           trade_centre_state t' = TRADE_PATCH_DATA \<and> counter t' = 1 \<and> \<not> patch_pt_2 t' \<and>
           trade_block t' = trade_block t \<and>
           input_block t' = bs[offsetof_party X + 252 := SERIAL_NO_DATA_BYTE]"
proof -
  from recv_RESET [OF assms(1), of X b0]
  obtain t1 where r1: "recv X t b0 = Inr (b0, t1)"
    and s1: "trade_centre_state t1 = TRADE_INIT" and c1: "counter t1 = 0"
    and p1: "\<not> patch_pt_2 t1" and f1: "trade_block t1 = trade_block t"
      "input_block t1 = input_block t"
    by blast
  from r1 have r1': "recvs X t [b0] = Inr ([b0], t1)" by (simp add: bind_err_def)
  from init_phase_complete [OF s1 c1 assms(6), of X]
  obtain rs2 t2 where r2: "recvs X t1 (xs @ [SERIAL_PREAMBLE_BYTE]) = Inr (rs2, t2)"
    and s2: "trade_centre_state t2 = TRADE_RANDOM" and c2: "counter t2 = 0"
    and f2: "patch_pt_2 t2 = patch_pt_2 t1" "trade_block t2 = trade_block t1"
      "input_block t2 = input_block t1"
    by blast
  from random_phase_complete [OF s2 c2 assms(7), of X]
  obtain t3 where r3: "recvs X t2 ys = Inr (ys, t3)"
    and s3: "trade_centre_state t3 = TRADE_DATA" and c3: "counter t3 = 0"
    and f3: "patch_pt_2 t3 = patch_pt_2 t2" "trade_block t3 = trade_block t2"
      "input_block t3 = input_block t2"
    by blast
  have l3: "length (input_block t3) = sizeof_TradeBlock X"
    "length (trade_block t3) = sizeof_TradeBlock X" "0 < sizeof_TradeBlock X"
    using f1 f2 f3 assms(2,3,5) by simp_all
  from data_phase_complete [OF s3 c3 l3 assms(4,8)]
  obtain t4 where r4: "recvs X t3 bs = Inr (trade_block t3, t4)"
    and s4: "trade_centre_state t4 = TRADE_PATCH_HEADER" and c4: "counter t4 = 0"
    and f4: "input_block t4 = bs" "trade_block t4 = trade_block t3"
      "patch_pt_2 t4 = patch_pt_2 t3"
    by blast
  have p4: "\<not> patch_pt_2 t4" and l4: "offsetof_party X + 252 < length (input_block t4)"
    using p1 f2 f3 f4 assms(5,8) by simp_all
  from patch_header_complete [OF s4 c4 p4 l4]
  obtain t5 where
    r5: "recvs X t4 (replicate 5 SERIAL_PREAMBLE_BYTE @ [SERIAL_PREAMBLE_BYTE]) =
      Inr (replicate 5 SERIAL_PREAMBLE_BYTE @ [SERIAL_PREAMBLE_BYTE], t5)"
    and s5: "trade_centre_state t5 = TRADE_PATCH_DATA" and c5: "counter t5 = 1"
    and p5: "\<not> patch_pt_2 t5" and f5: "trade_block t5 = trade_block t4"
      "input_block t5 = (input_block t4)[offsetof_party X + 252 := SERIAL_NO_DATA_BYTE]"
    by blast
  note recvs_appendI [OF r1' recvs_appendI [OF r2 recvs_appendI [OF r3 recvs_appendI [OF r4 r5]]]]
  with s5 c5 p5 f1 f2 f3 f4 f5 show ?thesis by simp
qed

lemma recv_PATCH_DATA_terminator:
  assumes "trade_centre_state t = TRADE_PATCH_DATA" and "counter t = 1"
  shows "\<exists>r t'. recv X t SERIAL_PATCH_LIST_PART_TERMINATOR = Inr (r, t') \<and>
           trade_centre_state t' = TRADE_PATCH_DATA \<and> counter t' = 2 \<and> patch_pt_2 t' \<and>
           trade_block t' = trade_block t \<and> input_block t' = input_block t"
  using assms
  by (simp add: recv_def getTradeCentreResponse_def case_TRADE_PATCH_DATA_def incr_def bind_err_def
        Let_def)

lemma recvs_snoc_fails:
  "recvs X t xs = Inr (rs, t1) \<Longrightarrow> recv X t1 b = Inl e \<Longrightarrow> recvs X t (xs @ [b]) = Inl e"
  by (simp add: recvs_append bind_err_def)

section \<open>The claims\<close>

text \<open>
  Claim C1. In the pending phase, for every slot index \<open>k\<close> in 0..5 and every selection
  byte \<open>b\<close> for it (both mask bits 0x60 set, low nibble \<open>k\<close>; 0x60 + k is one), the
  bytes \<open>b\<close>, blank, accept (0x62), blank are answered with 0x60, blank, 0x62, blank and
  end the session in the reset phase. Slot 0 of the local Trade Block then holds the
  species byte, the creature record, the nickname and the original-trainer name that
  slot \<open>k\<close> of the Incoming Scratch Block held before. The scratch block is
  unchanged, and so is every byte of the local block outside slot 0 of the four arrays.
\<close>

theorem trade_copies_selected_slot:
  assumes "layout_ok X"
    and "length (trade_block t) = sizeof_TradeBlock X"
    and "length (input_block t) = sizeof_TradeBlock X"
    and "trade_centre_state t = TRADE_PENDING"
    and "k < 6" and "b AND PKMN_SEL_NUM_MASK = PKMN_SEL_NUM_MASK" and "unat (b AND 0x0F) = k"
  shows "\<exists>t'. recvs X t [b, PKMN_BLANK, PKMN_TRADE_ACCEPT, PKMN_BLANK] =
             Inr ([PKMN_SEL_NUM_ONE, PKMN_BLANK, PKMN_TRADE_ACCEPT, PKMN_BLANK], t') \<and>
           trade_centre_state t' = TRADE_RESET \<and>
           input_block t' = input_block t \<and>
           length (trade_block t') = sizeof_TradeBlock X \<and>
           trade_block t' ! offsetof_party_members X =
             input_block t ! (offsetof_party_members X + k) \<and>
           slice (trade_block t') (offsetof_party X) (sizeof_pokemon_structure X) =
             slice (input_block t) (offsetof_party X + k * sizeof_pokemon_structure X)
               (sizeof_pokemon_structure X) \<and>
           slice (trade_block t') (offsetof_nickname X) (sizeof_name X) =
             slice (input_block t) (offsetof_nickname X + k * sizeof_name X) (sizeof_name X) \<and>
           slice (trade_block t') (offsetof_ot_name X) (sizeof_name X) =
             slice (input_block t) (offsetof_ot_name X + k * sizeof_name X) (sizeof_name X) \<and>
           (\<forall>i. i < sizeof_TradeBlock X \<and> \<not> in_slot_0 X i \<longrightarrow>
              trade_block t' ! i = trade_block t ! i)"
proof -
  define N where "N = sizeof_TradeBlock X"
  define pm where "pm = offsetof_party_members X"
  define pa where "pa = offsetof_party X"
  define nn where "nn = offsetof_nickname X"
  define ot where "ot = offsetof_ot_name X"
  define ps where "ps = sizeof_pokemon_structure X"
  define ns where "ns = sizeof_name X"
  define tb where "tb = trade_block t"
  define ib where "ib = input_block t"
  note defs = N_def pm_def pa_def nn_def ot_def ps_def ns_def tb_def ib_def
  have leave: "b \<noteq> PKMN_TABLE_LEAVE"
  proof
    assume "b = PKMN_TABLE_LEAVE"
    then have "unat (b AND 0x0F) = 15" by simp
    with assms(5,7) show False by simp
  qed
  from pending_to_done [OF assms(4,6) leave, of X]
  obtain t3 where r3: "recvs X t [b, PKMN_BLANK, PKMN_TRADE_ACCEPT] =
        Inr ([PKMN_SEL_NUM_ONE, PKMN_BLANK, PKMN_TRADE_ACCEPT], t3)"
    and s3: "trade_centre_state t3 = TRADE_DONE" and n3: "in_pokemon_num t3 = b AND 0x0F"
    and f3: "trade_block t3 = trade_block t" "input_block t3 = input_block t"
    by blast
  from n3 assms(7) have k3: "unat (in_pokemon_num t3) = k" by simp
  from f3 assms(2,3) have l3: "length (trade_block t3) = sizeof_TradeBlock X"
    "length (input_block t3) = sizeof_TradeBlock X"
    by simp_all
  define b4 where "b4 =
    copy_bytes (copy_bytes (copy_bytes (tb[pm := ib ! (pm + k)]) pa ib (pa + k * ps) ps)
      nn ib (nn + k * ns) ns) ot ib (ot + k * ns) ns"
  from recv_DONE_blank [OF s3 k3 assms(5,1) l3] f3
  obtain t4 where r4: "recv X t3 PKMN_BLANK = Inr (PKMN_BLANK, t4)"
    and s4: "trade_centre_state t4 = TRADE_RESET" and i4: "input_block t4 = input_block t"
    and b4: "trade_block t4 = b4"
    unfolding b4_def defs by auto
  from recvs_snocI [OF r3 r4]
  have run: "recvs X t [b, PKMN_BLANK, PKMN_TRADE_ACCEPT, PKMN_BLANK] =
      Inr ([PKMN_SEL_NUM_ONE, PKMN_BLANK, PKMN_TRADE_ACCEPT, PKMN_BLANK], t4)"
    by simp
  have len: "length tb = N" "length ib = N" using assms(2,3) by (simp_all add: defs)
  have l4: "length b4 = N" by (simp add: b4_def len)
  have nth4: "b4 ! i =
      (if ot \<le> i \<and> i < ot + ns then ib ! (ot + k * ns + (i - ot))
       else if nn \<le> i \<and> i < nn + ns then ib ! (nn + k * ns + (i - nn))
       else if pa \<le> i \<and> i < pa + ps then ib ! (pa + k * ps + (i - pa))
       else if i = pm then ib ! (pm + k) else tb ! i)"
    if "i < N" for i
    using that by (simp add: b4_def nth_copy_bytes len)
  from assms(1) have fit: "pm + 6 \<le> N" "pa + 6 * ps \<le> N" "nn + 6 * ns \<le> N" "ot + 6 * ns \<le> N"
    and d1: "pm + 6 \<le> pa \<or> pa + 6 * ps \<le> pm" and d2: "pm + 6 \<le> nn \<or> nn + 6 * ns \<le> pm"
    and d3: "pm + 6 \<le> ot \<or> ot + 6 * ns \<le> pm" and d4: "pa + 6 * ps \<le> nn \<or> nn + 6 * ns \<le> pa"
    and d5: "pa + 6 * ps \<le> ot \<or> ot + 6 * ns \<le> pa" and d6: "nn + 6 * ns \<le> ot \<or> ot + 6 * ns \<le> nn"
    by (simp_all add: layout_ok_def Let_def disjoint_ranges_def defs)
  have kfit: "pa + k * ps + ps \<le> N" "nn + k * ns + ns \<le> N" "ot + k * ns + ns \<le> N"
    using slot_fits [OF assms(5)] fit by simp_all
  have species: "b4 ! pm = ib ! (pm + k)"
  proof -
    have "pm < N" using fit(1) by simp
    moreover have "\<not> (ot \<le> pm \<and> pm < ot + ns)" using d3 by linarith
    moreover have "\<not> (nn \<le> pm \<and> pm < nn + ns)" using d2 by linarith
    moreover have "\<not> (pa \<le> pm \<and> pm < pa + ps)" using d1 by linarith
    ultimately show ?thesis by (auto simp: nth4)
  qed
  have party: "slice b4 pa ps = slice ib (pa + k * ps) ps"
  proof (rule slice_eqI)
    show "pa + ps \<le> length b4" using fit(2) l4 by simp
    show "pa + k * ps + ps \<le> length ib" using kfit(1) len by simp
    fix j assume j: "j < ps"
    then have "pa + j < N" using fit(2) by simp
    moreover have "\<not> (ot \<le> pa + j \<and> pa + j < ot + ns)" using d5 j by linarith
    moreover have "\<not> (nn \<le> pa + j \<and> pa + j < nn + ns)" using d4 j by linarith
    ultimately show "b4 ! (pa + j) = ib ! (pa + k * ps + j)" using j by (auto simp: nth4)
  qed
  have nick: "slice b4 nn ns = slice ib (nn + k * ns) ns"
  proof (rule slice_eqI)
    show "nn + ns \<le> length b4" using fit(3) l4 by simp
    show "nn + k * ns + ns \<le> length ib" using kfit(2) len by simp
    fix j assume j: "j < ns"
    then have "nn + j < N" using fit(3) by simp
    moreover have "\<not> (ot \<le> nn + j \<and> nn + j < ot + ns)" using d6 j by linarith
    ultimately show "b4 ! (nn + j) = ib ! (nn + k * ns + j)" using j by (auto simp: nth4)
  qed
  have otn: "slice b4 ot ns = slice ib (ot + k * ns) ns"
  proof (rule slice_eqI)
    show "ot + ns \<le> length b4" using fit(4) l4 by simp
    show "ot + k * ns + ns \<le> length ib" using kfit(3) len by simp
    fix j assume j: "j < ns"
    then have "ot + j < N" using fit(4) by simp
    then show "b4 ! (ot + j) = ib ! (ot + k * ns + j)" using j by (auto simp: nth4)
  qed
  have rest: "b4 ! i = tb ! i" if "i < N" and "\<not> in_slot_0 X i" for i
    using that by (auto simp: nth4 in_slot_0_def defs)
  from run s4 i4 b4 l4 species party nick otn rest show ?thesis
    unfolding defs by blast
qed

text \<open>
  The run for slot 3 of \<open>pending_ctx\<close>, with the bytes written out: slot 0 of the local
  block receives the species byte at position 12 + 3 and the records that start at
  bytes 19 + 3 * 44, 349 + 3 * 11 and 283 + 3 * 11 of the scratch block.
\<close>

theorem trade_copies_selected_slot_witness:
  "layout_ok gen1_externs \<and>
   length (trade_block pending_ctx) = sizeof_TradeBlock gen1_externs \<and>
   length (input_block pending_ctx) = sizeof_TradeBlock gen1_externs \<and>
   trade_centre_state pending_ctx = TRADE_PENDING \<and>
   (3::nat) < 6 \<and> (0x63::uint8_t) AND PKMN_SEL_NUM_MASK = PKMN_SEL_NUM_MASK \<and>
   unat ((0x63::uint8_t) AND 0x0F) = 3 \<and>
   (\<exists>t'. recvs gen1_externs pending_ctx [0x63, PKMN_BLANK, PKMN_TRADE_ACCEPT, PKMN_BLANK] =
          Inr ([PKMN_SEL_NUM_ONE, PKMN_BLANK, PKMN_TRADE_ACCEPT, PKMN_BLANK], t') \<and>
      trade_centre_state t' = TRADE_RESET \<and>
      input_block t' = input_block pending_ctx \<and>
      trade_block t' ! 12 = 15 \<and>
      slice (trade_block t') 19 44 = map word_of_nat [151..<195] \<and>
      slice (trade_block t') 349 11 = map word_of_nat [382..<393] \<and>
      slice (trade_block t') 283 11 = map word_of_nat [316..<327])"
proof -
  have h1: "layout_ok gen1_externs"
    by (simp add: layout_ok_def Let_def disjoint_ranges_def gen1_externs_def)
  have h2: "length (trade_block pending_ctx) = sizeof_TradeBlock gen1_externs"
    by (simp add: pending_ctx_def entered_ctx_def gen1_externs_def)
  have h3: "length (input_block pending_ctx) = sizeof_TradeBlock gen1_externs"
    by (simp add: pending_ctx_def gen1_externs_def)
  have h4: "trade_centre_state pending_ctx = TRADE_PENDING"
    by (simp add: pending_ctx_def)
  have h5: "(3::nat) < 6" by simp
  have h6: "(0x63::uint8_t) AND PKMN_SEL_NUM_MASK = PKMN_SEL_NUM_MASK" by simp
  have h7: "unat ((0x63::uint8_t) AND 0x0F) = 3" by simp
  have sl: "slice (map word_of_nat [0..<415]) a n = (map word_of_nat [a..<a + n] :: uint8_t list)"
    if "a + n \<le> 415" for a n
    using that by (simp add: slice_def take_map drop_map take_upt drop_upt)
  from trade_copies_selected_slot [OF h1 h2 h3 h4 h5 h6 h7]
  have c: "\<exists>t'. recvs gen1_externs pending_ctx [0x63, PKMN_BLANK, PKMN_TRADE_ACCEPT, PKMN_BLANK] =
          Inr ([PKMN_SEL_NUM_ONE, PKMN_BLANK, PKMN_TRADE_ACCEPT, PKMN_BLANK], t') \<and>
      trade_centre_state t' = TRADE_RESET \<and>
      input_block t' = input_block pending_ctx \<and>
      trade_block t' ! 12 = 15 \<and>
      slice (trade_block t') 19 44 = map word_of_nat [151..<195] \<and>
      slice (trade_block t') 349 11 = map word_of_nat [382..<393] \<and>
      slice (trade_block t') 283 11 = map word_of_nat [316..<327]"
    by (auto simp: gen1_externs_def pending_ctx_def sl)
  show ?thesis
    by (rule conjI [OF h1 conjI [OF h2 conjI [OF h3 conjI [OF h4 conjI [OF h5
          conjI [OF h6 conjI [OF h7 c]]]]]]])
qed

text \<open>
  Claim C2, evaluated on the code. The patch-data case does what the claim says for a
  zero, for the terminator and for every marker before the terminator (lemmas
  \<open>patch_data_marker\<close> and \<open>patch_marker_part_1_inside_party\<close>). After the terminator
  it writes the filler at position 0xFB + m for every marker \<open>m\<close>, unchecked, although
  only the markers up to 0x0C address the party region (its comment: part 2 is
  0xFC to 0x107). In a session from the entered context in which the peer's first
  patch bytes are the terminator and the marker 0x0D, the scratch block ends with the
  filler at byte 271 (written by the sixth preamble marker) and at byte 283, which is
  the first byte after the party region: the marker has overwritten no byte of the
  party region. With the marker 0xFE in its place the write is past the end of the
  415-byte block.
\<close>

theorem peer_marker_written_outside_party_region:
  "scratch_after (recvs gen1_externs entered_ctx
       (patch_entry_bytes @ [SERIAL_PATCH_LIST_PART_TERMINATOR, 0x0D])) =
     Inr ((replicate 415 0x00)[271 := SERIAL_NO_DATA_BYTE, 283 := SERIAL_NO_DATA_BYTE]) \<and>
   offsetof_party gen1_externs + 6 * sizeof_pokemon_structure gen1_externs = 283 \<and>
   scratch_after (recvs gen1_externs entered_ctx
       (patch_entry_bytes @ [SERIAL_PATCH_LIST_PART_TERMINATOR, 0xFE])) =
     Inl OutOfBounds"
proof -
  have h: "trade_centre_state entered_ctx = TRADE_RESET"
    "length (input_block entered_ctx) = sizeof_TradeBlock gen1_externs"
    "length (trade_block entered_ctx) = sizeof_TradeBlock gen1_externs"
    "int (sizeof_TradeBlock gen1_externs) \<le> INT_MAX"
    "offsetof_party gen1_externs + 252 < sizeof_TradeBlock gen1_externs"
    "count_list (replicate 9 SERIAL_PREAMBLE_BYTE) SERIAL_PREAMBLE_BYTE = 9"
    "length (replicate 19 (0x00::uint8_t)) = 19"
    "length (replicate 415 (0x00::uint8_t)) = sizeof_TradeBlock gen1_externs"
    by (simp_all add: entered_ctx_def gen1_externs_def count_list_replicate_same)
  from session_reaches_patch_data [OF h, of "0x00"]
  obtain rs1 t1 where r1: "recvs gen1_externs entered_ctx patch_entry_bytes = Inr (rs1, t1)"
    and s1: "trade_centre_state t1 = TRADE_PATCH_DATA" and c1: "counter t1 = 1"
    and i1: "input_block t1 = (replicate 415 0x00)[271 := SERIAL_NO_DATA_BYTE]"
    unfolding patch_entry_bytes_def by (auto simp: gen1_externs_def)
  from recv_PATCH_DATA_terminator [OF s1 c1, of gen1_externs]
  obtain r2 t2 where r2: "recv gen1_externs t1 SERIAL_PATCH_LIST_PART_TERMINATOR = Inr (r2, t2)"
    and s2: "trade_centre_state t2 = TRADE_PATCH_DATA" and c2: "counter t2 = 2"
    and p2: "patch_pt_2 t2" and i2: "input_block t2 = input_block t1"
    by blast
  note r12 = recvs_snocI [OF r1 r2]
  have a: "trade_centre_state (t2\<lparr>in_data := 0x0D\<rparr>) = TRADE_PATCH_DATA"
    "counter (t2\<lparr>in_data := 0x0D\<rparr>) < INT_MAX"
    using s2 c2 by simp_all
  have "in_data (t2\<lparr>in_data := 0x0D\<rparr>) \<noteq> PKMN_BLANK \<and>
      in_data (t2\<lparr>in_data := 0x0D\<rparr>) \<noteq> SERIAL_PATCH_LIST_PART_TERMINATOR \<and>
      patch_pt_2 (t2\<lparr>in_data := 0x0D\<rparr>) \<and>
      offsetof_party gen1_externs + (0xFB + unat (in_data (t2\<lparr>in_data := 0x0D\<rparr>))) <
        length (input_block (t2\<lparr>in_data := 0x0D\<rparr>))"
    using p2 i2 i1 by (simp add: gen1_externs_def)
  with patch_data_marker [OF a, of gen1_externs]
  obtain r3 t3 where r3: "recv gen1_externs t2 0x0D = Inr (r3, t3)"
    and i3: "input_block t3 = (input_block t2)[283 := SERIAL_NO_DATA_BYTE]"
    unfolding recv_def by (auto simp: gen1_externs_def)
  from recvs_snocI [OF r12 r3] i3 i2 i1
  have first: "scratch_after (recvs gen1_externs entered_ctx
       (patch_entry_bytes @ [SERIAL_PATCH_LIST_PART_TERMINATOR, 0x0D])) =
     Inr ((replicate 415 0x00)[271 := SERIAL_NO_DATA_BYTE, 283 := SERIAL_NO_DATA_BYTE])"
    by (simp add: scratch_after_def)
  have b: "trade_centre_state (t2\<lparr>in_data := 0xFE\<rparr>) = TRADE_PATCH_DATA"
    "counter (t2\<lparr>in_data := 0xFE\<rparr>) < INT_MAX"
    "in_data (t2\<lparr>in_data := 0xFE\<rparr>) \<noteq> PKMN_BLANK"
    "in_data (t2\<lparr>in_data := 0xFE\<rparr>) \<noteq> SERIAL_PATCH_LIST_PART_TERMINATOR"
    "patch_pt_2 (t2\<lparr>in_data := 0xFE\<rparr>)"
    "length (input_block (t2\<lparr>in_data := 0xFE\<rparr>)) \<le>
       offsetof_party gen1_externs + (0xFB + unat (in_data (t2\<lparr>in_data := 0xFE\<rparr>)))"
    using s2 c2 p2 i2 i1 by (simp_all add: gen1_externs_def)
  from patch_marker_part_2_outside_block [OF b]
  have "recv gen1_externs t2 0xFE = Inl OutOfBounds" by (simp add: recv_def)
  from recvs_snoc_fails [OF r12 this]
  have second: "scratch_after (recvs gen1_externs entered_ctx
       (patch_entry_bytes @ [SERIAL_PATCH_LIST_PART_TERMINATOR, 0xFE])) = Inl OutOfBounds"
    by (simp add: scratch_after_def)
  have region: "offsetof_party gen1_externs + 6 * sizeof_pokemon_structure gen1_externs = 283"
    by (simp add: gen1_externs_def)
  show ?thesis by (rule conjI [OF first conjI [OF region second]])
qed

text \<open>
  Claim C3, evaluated on the code. In the menu handler the byte 0xD4 (trade centre
  selected) sets the status to ready, and the byte returned is \<^verbatim>\<open>PKMN_BLANK\<close>, 0x00:
  the case leaves \<^verbatim>\<open>response\<close> at its initial value, it does not echo the byte.
\<close>

theorem menu_trade_centre_answers_blank:
  "getMenuResponse (t\<lparr>in_data := PKMN_TRADE_CENTRE\<rparr>) =
     (PKMN_BLANK, set_status GAMEBOY_READY (t\<lparr>in_data := PKMN_TRADE_CENTRE\<rparr>))"
  by (simp add: getMenuResponse_def)

text \<open>
  The same at the level of the bit shifter: with the status connected and seven bits
  of 0xD4 shifted in, the last bit (0) completes the byte, the status becomes ready and
  the output accumulator holds 0x00.
\<close>

lemma menu_trade_centre_bits:
  "transferBit gen1_externs
     (entered_ctx\<lparr>shift := 7, in_data := 0x6A,
        view_model := \<lparr>gameboy_status = GAMEBOY_CONN_TRUE, ledon = False, curr_pokemon = 0x50\<rparr>\<rparr>)
     False =
   Inr (entered_ctx\<lparr>shift := 0, in_data := 0, out_data := 0x00,
          view_model := \<lparr>gameboy_status = GAMEBOY_READY, ledon = False, curr_pokemon = 0x50\<rparr>\<rparr>)"
  by (simp add: transferBit_def Let_def bind_err_def getMenuResponse_def set_status_def
        entered_ctx_def)

text \<open>
  Claim C4. From the init phase with its counter at zero, any byte sequence holding ten
  preamble markers 0xFD (other bytes may come between the first nine, the tenth ends
  the sequence) followed by nineteen bytes of any value leaves the machine in the
  bulk-exchange phase with the counter at zero. The phase changes exactly at those
  counts: it is init after every prefix that ends before the tenth marker, with the
  counter holding the number of markers seen, and it is random-seed, with the counter
  holding the number of seed bytes, after the tenth marker and fewer than nineteen
  further bytes.
\<close>

theorem handshake_reaches_bulk_exchange:
  assumes "trade_centre_state t = TRADE_INIT" and "counter t = 0"
    and "count_list xs SERIAL_PREAMBLE_BYTE = 9" and "length ys = 19"
  shows "(\<forall>n\<le>length xs. \<exists>rs t'. recvs X t (take n xs) = Inr (rs, t') \<and>
            trade_centre_state t' = TRADE_INIT \<and>
            counter t' = int (count_list (take n xs) SERIAL_PREAMBLE_BYTE)) \<and>
         (\<forall>m<19. \<exists>rs t'. recvs X t (xs @ [SERIAL_PREAMBLE_BYTE] @ take m ys) = Inr (rs, t') \<and>
            trade_centre_state t' = TRADE_RANDOM \<and> counter t' = int m) \<and>
         (\<exists>rs t'. recvs X t (xs @ [SERIAL_PREAMBLE_BYTE] @ ys) = Inr (rs, t') \<and>
            trade_centre_state t' = TRADE_DATA \<and> counter t' = 0)"
proof (intro conjI allI impI)
  fix n assume "n \<le> length xs"
  have "0 + count_list (take n xs) SERIAL_PREAMBLE_BYTE < 10"
    using count_list_take_le [of n xs SERIAL_PREAMBLE_BYTE] assms(3) by simp
  from init_run [OF assms(1) _ this, of X] assms(2)
  show "\<exists>rs t'. recvs X t (take n xs) = Inr (rs, t') \<and> trade_centre_state t' = TRADE_INIT \<and>
      counter t' = int (count_list (take n xs) SERIAL_PREAMBLE_BYTE)"
    by auto
next
  from init_phase_complete [OF assms(1,2,3), of X]
  obtain rs1 t1 where r1: "recvs X t (xs @ [SERIAL_PREAMBLE_BYTE]) = Inr (rs1, t1)"
    and s1: "trade_centre_state t1 = TRADE_RANDOM" and c1: "counter t1 = 0"
    by blast
  {
    fix m :: nat assume m: "m < 19"
    have c1': "counter t1 = int 0" using c1 by simp
    have "0 + length (take m ys) < 19" using m by simp
    from random_run [OF s1 c1' this, of X]
    obtain t2 where r2: "recvs X t1 (take m ys) = Inr (take m ys, t2)"
      and s2: "trade_centre_state t2 = TRADE_RANDOM"
      and c2: "counter t2 = int (length (take m ys))"
      by auto
    from recvs_appendI [OF r1 r2] s2 c2 m assms(4)
    show "\<exists>rs t'. recvs X t (xs @ [SERIAL_PREAMBLE_BYTE] @ take m ys) = Inr (rs, t') \<and>
        trade_centre_state t' = TRADE_RANDOM \<and> counter t' = int m"
      by auto
  }
  from random_phase_complete [OF s1 c1 assms(4), of X]
  obtain t2 where r2: "recvs X t1 ys = Inr (ys, t2)"
    and s2: "trade_centre_state t2 = TRADE_DATA" and c2: "counter t2 = 0"
    by blast
  from recvs_appendI [OF r1 r2] s2 c2
  show "\<exists>rs t'. recvs X t (xs @ [SERIAL_PREAMBLE_BYTE] @ ys) = Inr (rs, t') \<and>
      trade_centre_state t' = TRADE_DATA \<and> counter t' = 0"
    by auto
qed

theorem handshake_reaches_bulk_exchange_witness:
  "count_list [0x00, 0xFD, 0xFD, 0xFD, 0x00, 0xFD, 0xFD, 0xFD, 0xFD, 0xFD, 0xFD]
       SERIAL_PREAMBLE_BYTE = 9 \<and>
   length (replicate 19 (0x2A::uint8_t)) = 19 \<and>
   (\<exists>rs t'. recvs gen1_externs (entered_ctx\<lparr>trade_centre_state := TRADE_INIT\<rparr>)
        ([0x00, 0xFD, 0xFD, 0xFD, 0x00, 0xFD, 0xFD, 0xFD, 0xFD, 0xFD, 0xFD] @
         [SERIAL_PREAMBLE_BYTE] @ replicate 19 0x2A) = Inr (rs, t') \<and>
      trade_centre_state t' = TRADE_DATA \<and> counter t' = 0)"
proof -
  have c: "count_list [0x00, 0xFD, 0xFD, 0xFD, 0x00, 0xFD, 0xFD, 0xFD, 0xFD, 0xFD, 0xFD]
       SERIAL_PREAMBLE_BYTE = 9"
    by simp
  have l: "length (replicate 19 (0x2A::uint8_t)) = 19" by simp
  have s: "trade_centre_state (entered_ctx\<lparr>trade_centre_state := TRADE_INIT\<rparr>) = TRADE_INIT"
    by simp
  have z: "counter (entered_ctx\<lparr>trade_centre_state := TRADE_INIT\<rparr>) = 0"
    by (simp add: entered_ctx_def)
  from handshake_reaches_bulk_exchange [OF s z c l, of gen1_externs] c l
  show ?thesis by blast
qed

text \<open>
  Claim C5. In the bulk-exchange phase with the counter at zero and both blocks of the
  size of a Trade Block, feeding exactly \<^verbatim>\<open>sizeof(TradeBlock)\<close> bytes of any value ends in
  the patch-header phase with the counter at zero; after every shorter prefix the phase
  is still bulk exchange. The responses are the bytes of the local Trade Block in order
  and the scratch block then holds the received bytes in order: byte \<open>i\<close> received goes
  to position \<open>i\<close> and byte \<open>i\<close> of the local block is sent.
\<close>

theorem bulk_exchange_swaps_blocks:
  assumes "trade_centre_state t = TRADE_DATA" and "counter t = 0"
    and "length (input_block t) = sizeof_TradeBlock X"
    and "length (trade_block t) = sizeof_TradeBlock X"
    and "0 < sizeof_TradeBlock X" and "int (sizeof_TradeBlock X) \<le> INT_MAX"
    and "length bs = sizeof_TradeBlock X"
  shows "(\<forall>n. n < sizeof_TradeBlock X \<longrightarrow> (\<exists>t'.
            recvs X t (take n bs) = Inr (take n (trade_block t), t') \<and>
            trade_centre_state t' = TRADE_DATA \<and> counter t' = int n \<and>
            input_block t' = take n bs @ drop n (input_block t) \<and>
            trade_block t' = trade_block t)) \<and>
         (\<exists>t'. recvs X t bs = Inr (trade_block t, t') \<and>
            trade_centre_state t' = TRADE_PATCH_HEADER \<and> counter t' = 0 \<and>
            input_block t' = bs \<and> trade_block t' = trade_block t)"
proof (intro conjI allI impI)
  fix n assume n: "n < sizeof_TradeBlock X"
  have c0: "counter t = int 0" using assms(2) by simp
  have "0 + length (take n bs) < sizeof_TradeBlock X" using n assms(7) by simp
  from data_run [OF assms(1) c0 assms(3,4,6) this] n assms(7)
  show "\<exists>t'. recvs X t (take n bs) = Inr (take n (trade_block t), t') \<and>
      trade_centre_state t' = TRADE_DATA \<and> counter t' = int n \<and>
      input_block t' = take n bs @ drop n (input_block t) \<and> trade_block t' = trade_block t"
    by auto
next
  from data_phase_complete [OF assms]
  show "\<exists>t'. recvs X t bs = Inr (trade_block t, t') \<and>
      trade_centre_state t' = TRADE_PATCH_HEADER \<and> counter t' = 0 \<and>
      input_block t' = bs \<and> trade_block t' = trade_block t"
    by blast
qed

theorem bulk_exchange_swaps_blocks_witness:
  "(\<exists>t'. recvs gen1_externs (entered_ctx\<lparr>trade_centre_state := TRADE_DATA\<rparr>)
          (take 414 (replicate 415 0x2A)) =
        Inr (take 414 (trade_block (entered_ctx\<lparr>trade_centre_state := TRADE_DATA\<rparr>)), t') \<and>
      trade_centre_state t' = TRADE_DATA \<and> counter t' = 414) \<and>
   (\<exists>t'. recvs gen1_externs (entered_ctx\<lparr>trade_centre_state := TRADE_DATA\<rparr>)
          (replicate 415 0x2A) =
        Inr (trade_block (entered_ctx\<lparr>trade_centre_state := TRADE_DATA\<rparr>), t') \<and>
      trade_centre_state t' = TRADE_PATCH_HEADER \<and> counter t' = 0 \<and>
      input_block t' = replicate 415 0x2A)"
proof -
  let ?t = "entered_ctx\<lparr>trade_centre_state := TRADE_DATA\<rparr>"
  have h: "trade_centre_state ?t = TRADE_DATA" "counter ?t = 0"
    "length (input_block ?t) = sizeof_TradeBlock gen1_externs"
    "length (trade_block ?t) = sizeof_TradeBlock gen1_externs"
    "0 < sizeof_TradeBlock gen1_externs" "int (sizeof_TradeBlock gen1_externs) \<le> INT_MAX"
    "length (replicate 415 (0x2A::uint8_t)) = sizeof_TradeBlock gen1_externs"
    by (simp_all add: entered_ctx_def gen1_externs_def)
  have n: "414 < sizeof_TradeBlock gen1_externs" by (simp add: gen1_externs_def)
  from bulk_exchange_swaps_blocks [OF h] n
  show ?thesis by fastforce
qed

text \<open>
  Claim C6. In the patch-header phase the counter counts preamble markers 0xFD. The
  marker that brings the count to six is handled, within the same call, exactly as the
  patch-data phase handles it from a counter of zero: the phase becomes patch data, the
  counter is 1 afterwards (the byte is the first of the patch-data phase), the byte is
  echoed, and being neither blank nor the terminator it patches the scratch block (in
  the first half, at party offset 0xFD - 1). Any other byte leaves the machine in the
  patch-header phase, the scratch block untouched, and only a marker is counted.
\<close>

theorem patch_header_falls_through:
  assumes "trade_centre_state t = TRADE_PATCH_HEADER" and "0 \<le> counter t" and "counter t \<le> 5"
  shows "(in_data t = SERIAL_PREAMBLE_BYTE \<and> counter t = 5 \<longrightarrow>
            getTradeCentreResponse X t =
              getTradeCentreResponse X (t\<lparr>counter := 0, trade_centre_state := TRADE_PATCH_DATA\<rparr>) \<and>
            (\<forall>r t'. getTradeCentreResponse X t = Inr (r, t') \<longrightarrow>
               trade_centre_state t' = TRADE_PATCH_DATA \<and> counter t' = 1 \<and>
               r = SERIAL_PREAMBLE_BYTE) \<and>
            (\<not> patch_pt_2 t \<and> offsetof_party X + 252 < length (input_block t) \<longrightarrow>
               (\<exists>t'. getTradeCentreResponse X t = Inr (SERIAL_PREAMBLE_BYTE, t') \<and>
                  input_block t' =
                    (input_block t)[offsetof_party X + 252 := SERIAL_NO_DATA_BYTE]))) \<and>
         (\<not> (in_data t = SERIAL_PREAMBLE_BYTE \<and> counter t = 5) \<longrightarrow>
            (\<exists>t'. getTradeCentreResponse X t = Inr (in_data t, t') \<and>
               trade_centre_state t' = TRADE_PATCH_HEADER \<and>
               counter t' = counter t + (if in_data t = SERIAL_PREAMBLE_BYTE then 1 else 0) \<and>
               input_block t' = input_block t \<and> patch_pt_2 t' = patch_pt_2 t))"
  using assms
  by (auto simp: getTradeCentreResponse_def case_TRADE_PATCH_HEADER_def
        case_TRADE_PATCH_DATA_def incr_def bind_err_def store_def Let_def nat_add_distrib
        split: if_splits)

theorem patch_header_falls_through_witness:
  "getTradeCentreResponse gen1_externs
      (entered_ctx\<lparr>trade_centre_state := TRADE_PATCH_HEADER, counter := 5, in_data := 0xFD\<rparr>) =
    getTradeCentreResponse gen1_externs
      (entered_ctx\<lparr>trade_centre_state := TRADE_PATCH_HEADER, counter := 5, in_data := 0xFD\<rparr>
         \<lparr>counter := 0, trade_centre_state := TRADE_PATCH_DATA\<rparr>) \<and>
   (\<exists>t'. getTradeCentreResponse gen1_externs
        (entered_ctx\<lparr>trade_centre_state := TRADE_PATCH_HEADER, counter := 5, in_data := 0xFD\<rparr>) =
        Inr (SERIAL_PREAMBLE_BYTE, t') \<and>
      input_block t' =
        (input_block
           (entered_ctx\<lparr>trade_centre_state := TRADE_PATCH_HEADER, counter := 5, in_data := 0xFD\<rparr>))
          [offsetof_party gen1_externs + 252 := SERIAL_NO_DATA_BYTE])"
proof -
  let ?t = "entered_ctx\<lparr>trade_centre_state := TRADE_PATCH_HEADER, counter := 5, in_data := 0xFD\<rparr>"
  have h: "trade_centre_state ?t = TRADE_PATCH_HEADER" "0 \<le> counter ?t" "counter ?t \<le> 5"
    by simp_all
  have g: "in_data ?t = SERIAL_PREAMBLE_BYTE \<and> counter ?t = 5" by simp
  have b: "\<not> patch_pt_2 ?t \<and> offsetof_party gen1_externs + 252 < length (input_block ?t)"
    by (simp add: entered_ctx_def gen1_externs_def)
  from patch_header_falls_through [OF h, of gen1_externs] g b show ?thesis by blast
qed

text \<open>
  Claim C7, as the code has it. Whenever the handler returns and the phase has changed,
  the change is one of twelve: from a phase to the next one of the list (reset, init,
  random, data, patch header, patch data, select, pending, confirmation, done), from
  pending or from done to reset, or from confirmation back to select. The counter is
  zero after a change into init, random, data or patch header and 1 after the change
  into patch data (the byte that causes the change is its first). The other changes
  do not reset it: it is 196 on entering select from patch data and keeps its value
  on entering select from confirmation, and on entering pending, confirmation, done
  and reset; the reset phase clears it when the next byte arrives.
\<close>

theorem phase_changes:
  assumes "getTradeCentreResponse X t = Inr (r, t')"
    and "trade_centre_state t' \<noteq> trade_centre_state t"
  shows "(trade_centre_state t, trade_centre_state t') \<in>
           {(TRADE_RESET, TRADE_INIT), (TRADE_INIT, TRADE_RANDOM), (TRADE_RANDOM, TRADE_DATA),
            (TRADE_DATA, TRADE_PATCH_HEADER), (TRADE_PATCH_HEADER, TRADE_PATCH_DATA),
            (TRADE_PATCH_DATA, TRADE_SELECT), (TRADE_SELECT, TRADE_PENDING),
            (TRADE_PENDING, TRADE_CONFIRMATION), (TRADE_CONFIRMATION, TRADE_DONE),
            (TRADE_PENDING, TRADE_RESET), (TRADE_DONE, TRADE_RESET),
            (TRADE_CONFIRMATION, TRADE_SELECT)} \<and>
         (trade_centre_state t' \<in> {TRADE_INIT, TRADE_RANDOM, TRADE_DATA, TRADE_PATCH_HEADER}
            \<longrightarrow> counter t' = 0) \<and>
         (trade_centre_state t' = TRADE_PATCH_DATA \<longrightarrow> counter t' = 1) \<and>
         (trade_centre_state t' = TRADE_SELECT \<and> trade_centre_state t = TRADE_PATCH_DATA
            \<longrightarrow> counter t' = 196) \<and>
         (trade_centre_state t' \<in> {TRADE_PENDING, TRADE_CONFIRMATION, TRADE_DONE, TRADE_RESET} \<or>
          trade_centre_state t = TRADE_CONFIRMATION \<longrightarrow> counter t' = counter t)"
  using step_shape [OF assms(1)] assms(2)
  by (cases "trade_centre_state t") auto

theorem phase_changes_witness:
  "getTradeCentreResponse gen1_externs
      (entered_ctx\<lparr>trade_centre_state := TRADE_RANDOM, counter := 18, in_data := 0x2A\<rparr>) =
     Inr (0x2A, entered_ctx\<lparr>trade_centre_state := TRADE_DATA, counter := 0, in_data := 0x2A\<rparr>) \<and>
   trade_centre_state (entered_ctx\<lparr>trade_centre_state := TRADE_DATA, counter := 0, in_data := 0x2A\<rparr>)
     \<noteq> trade_centre_state
         (entered_ctx\<lparr>trade_centre_state := TRADE_RANDOM, counter := 18, in_data := 0x2A\<rparr>) \<and>
   (trade_centre_state
      (entered_ctx\<lparr>trade_centre_state := TRADE_RANDOM, counter := 18, in_data := 0x2A\<rparr>),
    trade_centre_state
      (entered_ctx\<lparr>trade_centre_state := TRADE_DATA, counter := 0, in_data := 0x2A\<rparr>)) \<in>
           {(TRADE_RESET, TRADE_INIT), (TRADE_INIT, TRADE_RANDOM), (TRADE_RANDOM, TRADE_DATA),
            (TRADE_DATA, TRADE_PATCH_HEADER), (TRADE_PATCH_HEADER, TRADE_PATCH_DATA),
            (TRADE_PATCH_DATA, TRADE_SELECT), (TRADE_SELECT, TRADE_PENDING),
            (TRADE_PENDING, TRADE_CONFIRMATION), (TRADE_CONFIRMATION, TRADE_DONE),
            (TRADE_PENDING, TRADE_RESET), (TRADE_DONE, TRADE_RESET),
            (TRADE_CONFIRMATION, TRADE_SELECT)}"
proof -
  let ?t = "entered_ctx\<lparr>trade_centre_state := TRADE_RANDOM, counter := 18, in_data := 0x2A\<rparr>"
  let ?t' = "entered_ctx\<lparr>trade_centre_state := TRADE_DATA, counter := 0, in_data := 0x2A\<rparr>"
  have s: "getTradeCentreResponse gen1_externs ?t = Inr (0x2A, ?t')"
    by (simp add: getTradeCentreResponse_def case_TRADE_RANDOM_def bind_err_def incr_def
          entered_ctx_def)
  have d: "trade_centre_state ?t' \<noteq> trade_centre_state ?t" by simp
  note m = phase_changes [OF s d, THEN conjunct1]
  show ?thesis by (rule conjI [OF s conjI [OF d m]])
qed

text \<open>
  The claim as stated fails on both counts in a session that the peer rejects. From the
  entered context the bytes of \<open>session_bytes\<close> lead to the confirmation phase, with the
  counter at 196 since the end of the patch data; the reject byte 0x61 then takes the
  machine back to the select phase, which is neither the next phase nor the initial
  one, and the counter is still 196.
\<close>

theorem reject_steps_back_and_keeps_counter:
  "phase_and_counter (recvs gen1_externs entered_ctx session_bytes) =
     Some (TRADE_CONFIRMATION, 196) \<and>
   phase_and_counter (recvs gen1_externs entered_ctx (session_bytes @ [PKMN_TRADE_REJECT])) =
     Some (TRADE_SELECT, 196)"
proof -
  have h: "trade_centre_state entered_ctx = TRADE_RESET"
    "length (input_block entered_ctx) = sizeof_TradeBlock gen1_externs"
    "length (trade_block entered_ctx) = sizeof_TradeBlock gen1_externs"
    "int (sizeof_TradeBlock gen1_externs) \<le> INT_MAX"
    "offsetof_party gen1_externs + 252 < sizeof_TradeBlock gen1_externs"
    "count_list (replicate 9 SERIAL_PREAMBLE_BYTE) SERIAL_PREAMBLE_BYTE = 9"
    "length (replicate 19 (0x00::uint8_t)) = 19"
    "length (replicate 415 (0x00::uint8_t)) = sizeof_TradeBlock gen1_externs"
    "(0x60::uint8_t) AND PKMN_SEL_NUM_MASK = PKMN_SEL_NUM_MASK" "(0x60::uint8_t) \<noteq> PKMN_TABLE_LEAVE"
    by (simp_all add: entered_ctx_def gen1_externs_def count_list_replicate_same)
  from session_reaches_confirmation [OF h, of "0x00"]
  obtain rs t1 where r1: "recvs gen1_externs entered_ctx session_bytes = Inr (rs, t1)"
    and s1: "trade_centre_state t1 = TRADE_CONFIRMATION" and c1: "counter t1 = 196"
    unfolding session_bytes_def by blast
  from recv_CONFIRMATION_reject [OF s1, of gen1_externs]
  obtain t2 where r2: "recv gen1_externs t1 PKMN_TRADE_REJECT = Inr (PKMN_TRADE_REJECT, t2)"
    and s2: "trade_centre_state t2 = TRADE_SELECT" and c2: "counter t2 = counter t1"
    by blast
  from r1 s1 c1 recvs_snocI [OF r1 r2] s2 c2 show ?thesis
    by (simp add: phase_and_counter_def)
qed

text \<open>
  Claim C8, as the code has it. In the pending phase the leave-table byte 0x6F is
  answered with 0x6F, sets the phase to reset and the status to ready; the next byte,
  whatever it is, is handled by the reset phase, which clears the counter and the
  part-2 flag and moves to init, so nothing of the abandoned session's counter is used
  again. In the random-seed phase the byte has no special meaning: it is echoed and
  counted like any other byte, and the status is unchanged.
\<close>

theorem leave_table_resets_from_pending:
  "(trade_centre_state t = TRADE_PENDING \<longrightarrow>
      (\<exists>t1. recv X t PKMN_TABLE_LEAVE = Inr (PKMN_TABLE_LEAVE, t1) \<and>
         trade_centre_state t1 = TRADE_RESET \<and>
         gameboy_status (view_model t1) = GAMEBOY_READY \<and>
         (\<exists>t2. recv X t1 b = Inr (b, t2) \<and> trade_centre_state t2 = TRADE_INIT \<and>
            counter t2 = 0 \<and> \<not> patch_pt_2 t2))) \<and>
   (trade_centre_state t = TRADE_RANDOM \<and> counter t < INT_MAX \<longrightarrow>
      (\<exists>t1. recv X t PKMN_TABLE_LEAVE = Inr (PKMN_TABLE_LEAVE, t1) \<and>
         view_model t1 = view_model t \<and>
         trade_centre_state t1 = (if counter t + 1 = 19 then TRADE_DATA else TRADE_RANDOM) \<and>
         counter t1 = (if counter t + 1 = 19 then 0 else counter t + 1)))"
  by (auto simp: recv_def getTradeCentreResponse_def case_TRADE_PENDING_def case_TRADE_RESET_def
        case_TRADE_RANDOM_def incr_def bind_err_def set_status_def)

theorem leave_table_resets_from_pending_witness:
  "trade_centre_state (entered_ctx\<lparr>trade_centre_state := TRADE_PENDING, counter := 196\<rparr>) =
     TRADE_PENDING \<and>
   (\<exists>t1. recv gen1_externs (entered_ctx\<lparr>trade_centre_state := TRADE_PENDING, counter := 196\<rparr>)
        PKMN_TABLE_LEAVE = Inr (PKMN_TABLE_LEAVE, t1) \<and>
      trade_centre_state t1 = TRADE_RESET \<and> gameboy_status (view_model t1) = GAMEBOY_READY \<and>
      (\<exists>t2. recv gen1_externs t1 0x00 = Inr (0x00, t2) \<and> trade_centre_state t2 = TRADE_INIT \<and>
         counter t2 = 0 \<and> \<not> patch_pt_2 t2))"
  using leave_table_resets_from_pending
    [where t = "entered_ctx\<lparr>trade_centre_state := TRADE_PENDING, counter := 196\<rparr>"
       and X = gen1_externs and b = "0x00"]
  by simp

text \<open>
  The claim as stated fails in the random-seed phase. From the entered context the
  reset byte and ten preamble markers lead to the random-seed phase; a leave-table byte
  delivered there leaves the phase at random seed, with the byte counted.
\<close>

theorem leave_table_ignored_in_random:
  "phase_and_counter
     (recvs gen1_externs entered_ctx
        [0x00, 0xFD, 0xFD, 0xFD, 0xFD, 0xFD, 0xFD, 0xFD, 0xFD, 0xFD, 0xFD]) =
     Some (TRADE_RANDOM, 0) \<and>
   phase_and_counter
     (recvs gen1_externs entered_ctx
        [0x00, 0xFD, 0xFD, 0xFD, 0xFD, 0xFD, 0xFD, 0xFD, 0xFD, 0xFD, 0xFD, PKMN_TABLE_LEAVE]) =
     Some (TRADE_RANDOM, 1)"
  by (simp add: phase_and_counter_def recv_def getTradeCentreResponse_def case_TRADE_RESET_def
        case_TRADE_INIT_def case_TRADE_RANDOM_def incr_def bind_err_def set_status_def
        entered_ctx_def)

text \<open>
  Claim C9, as the code has it. On a rising clock edge that arrives more than
  500 microseconds of cycles after the previous rising edge, whatever the bit count and
  the accumulated input were, the input accumulator and the bit counter are cleared
  before the bit is shifted in: afterwards the input accumulator holds this one bit and
  the bit counter is 1, as after the first bit of a fresh byte, and no handler runs.
  The output accumulator is not touched.
\<close>

theorem idle_gap_starts_fresh_byte:
  assumes "instructions_per_microsecond X * 500 < cyccnt - time t"
  shows "input_clk_gameboy X t True si cyccnt cyccnt' =
           Inr (t\<lparr>in_data := (if si then 1 else 0), shift := 1, time := cyccnt'\<rparr>) \<and>
         input_clk_gameboy X t True si cyccnt cyccnt' =
           bind_err (transferBit X (t\<lparr>in_data := 0, shift := 0\<rparr>) si)
             (\<lambda>t2. Inr (t2\<lparr>time := cyccnt'\<rparr>))"
  using assms
  by (simp add: input_clk_gameboy_def transferBit_def Let_def bind_err_def)

theorem idle_gap_starts_fresh_byte_witness:
  "instructions_per_microsecond gen1_externs * 500 <
     1000000 - time (entered_ctx\<lparr>in_data := 0x05, out_data := 0x80, shift := 3\<rparr>) \<and>
   input_clk_gameboy gen1_externs (entered_ctx\<lparr>in_data := 0x05, out_data := 0x80, shift := 3\<rparr>)
     True True 1000000 1000100 =
   Inr (entered_ctx\<lparr>in_data := 0x05, out_data := 0x80, shift := 3\<rparr>
          \<lparr>in_data := (if True then 1 else 0), shift := 1, time := 1000100\<rparr>)"
proof -
  have h: "instructions_per_microsecond gen1_externs * 500 <
     1000000 - time (entered_ctx\<lparr>in_data := 0x05, out_data := 0x80, shift := 3\<rparr>)"
    by (simp add: gen1_externs_def entered_ctx_def)
  from idle_gap_starts_fresh_byte [OF h] h show ?thesis by blast
qed

text \<open>
  The claim as stated fails: after an idle gap the output accumulator keeps its value.
  Here the register is in the middle of a byte (three bits in, 0x80 still to be sent);
  the edge arrives 1000000 cycles after the last one (the threshold is 32000).
\<close>

theorem idle_gap_keeps_output_accumulator:
  "input_clk_gameboy gen1_externs (entered_ctx\<lparr>in_data := 0x05, out_data := 0x80, shift := 3\<rparr>)
     True False 1000000 1000100 =
   Inr (entered_ctx\<lparr>in_data := 0, out_data := 0x80, shift := 1, time := 1000100\<rparr>)"
  by (simp add: input_clk_gameboy_def transferBit_def Let_def bind_err_def gen1_externs_def
        entered_ctx_def)

text \<open>
  Claim C10. While the status is not-connected or connected (role negotiation, menu
  mirroring), the handler of a received byte changes nothing but the status: the
  context it returns is the one it was given, with at most \<^verbatim>\<open>gameboy_status\<close>
  different, in every field of the context and of the view model. In particular the
  trade-centre phase, the counters and flags of the trade-centre handler, the local
  Trade Block, the Incoming Scratch Block and the patch list are unchanged. The same
  holds of the whole step of the bit shifter in these two statuses, for every bit,
  the one that completes a byte included: besides the status it changes only the
  shift register (input accumulator, bit counter) and the output byte.
\<close>

theorem negotiation_and_menu_keep_session:
  "only_status_changed t (snd (getConnectResponse t)) \<and>
   only_status_changed t (snd (getMenuResponse t)) \<and>
   same_session t (snd (getConnectResponse t)) \<and> same_session t (snd (getMenuResponse t)) \<and>
   (gameboy_status (view_model t) = GAMEBOY_CONN_FALSE \<or>
    gameboy_status (view_model t) = GAMEBOY_CONN_TRUE \<longrightarrow>
      (\<exists>t'. transferBit X t si = Inr t' \<and> same_session t t' \<and>
         only_status_changed
           (t\<lparr>in_data := in_data t', shift := shift t', out_data := out_data t'\<rparr>) t'))"
  by (auto simp: transferBit_def Let_def bind_err_def getConnectResponse_def getMenuResponse_def
        set_status_def same_session_def only_status_changed_def)

theorem negotiation_and_menu_keep_session_witness:
  "gameboy_status (view_model (entered_ctx\<lparr>shift := 7, in_data := 0x6A,
       view_model := \<lparr>gameboy_status = GAMEBOY_CONN_TRUE, ledon = False, curr_pokemon = 0x50\<rparr>\<rparr>)) =
     GAMEBOY_CONN_TRUE \<and>
   (\<exists>t'. transferBit gen1_externs (entered_ctx\<lparr>shift := 7, in_data := 0x6A,
       view_model := \<lparr>gameboy_status = GAMEBOY_CONN_TRUE, ledon = False, curr_pokemon = 0x50\<rparr>\<rparr>)
       False = Inr t' \<and>
     same_session (entered_ctx\<lparr>shift := 7, in_data := 0x6A,
       view_model := \<lparr>gameboy_status = GAMEBOY_CONN_TRUE, ledon = False, curr_pokemon = 0x50\<rparr>\<rparr>) t' \<and>
     only_status_changed
       (entered_ctx\<lparr>shift := 7, in_data := 0x6A,
          view_model := \<lparr>gameboy_status = GAMEBOY_CONN_TRUE, ledon = False, curr_pokemon = 0x50\<rparr>\<rparr>
          \<lparr>in_data := in_data t', shift := shift t', out_data := out_data t'\<rparr>) t')"
  using negotiation_and_menu_keep_session [of "entered_ctx\<lparr>shift := 7, in_data := 0x6A,
       view_model := \<lparr>gameboy_status = GAMEBOY_CONN_TRUE, ledon = False, curr_pokemon = 0x50\<rparr>\<rparr>"
       gen1_externs False]
  by simp

end
